theory Spec2Isabelle
  imports Main
begin

section \<open>Strings and the JavaScript string primitives the handlers use\<close>

text \<open>
  A JavaScript string is modelled by its UTF-8 byte sequence (\<^typ>\<open>string\<close>). Substring
  search on well-formed UTF-8 agrees with substring search on code points.

  A value that may be \<open>undefined\<close>/\<open>null\<close> is an \<open>option\<close>; a property read or method
  call on \<open>None\<close> is the \<open>TypeError\<close> the runtime throws.
\<close>

datatype error = TypeError | InvalidPayload "string list" | CannotParse

subsection \<open>Lower case\<close>

text \<open>
  The lower-case form of one code point, as \<open>String.prototype.toLowerCase\<close> gives it,
  for Basic Latin, the Latin-1 Supplement, Latin Extended-A and Latin Extended
  Additional (these hold every letter of the five languages of the keyword tables),
  and for the Kelvin and Angstrom signs, the only code points outside these blocks
  whose lower-case form lies inside them. A cased letter of another script is left as
  it is; its lower-case form is again outside these blocks, so that this makes no
  difference to a search for a keyword or pattern of the source, all of which are
  written in these blocks.
\<close>

definition lowerCodePoint :: "int \<Rightarrow> int list" where
  "lowerCodePoint cp =
     (if 0x41 \<le> cp \<and> cp \<le> 0x5A then [cp + 0x20]
      else if 0xC0 \<le> cp \<and> cp \<le> 0xDE \<and> cp \<noteq> 0xD7 then [cp + 0x20]
      else if cp = 0x130 then [0x69, 0x307]
      else if cp = 0x178 then [0xFF]
      else if ((0x100 \<le> cp \<and> cp \<le> 0x12F) \<or> (0x132 \<le> cp \<and> cp \<le> 0x137) \<or>
               (0x14A \<le> cp \<and> cp \<le> 0x177)) \<and> even cp then [cp + 1]
      else if ((0x139 \<le> cp \<and> cp \<le> 0x148) \<or> (0x179 \<le> cp \<and> cp \<le> 0x17E)) \<and> odd cp
        then [cp + 1]
      else if cp = 0x1E9E then [0xDF]
      else if ((0x1E00 \<le> cp \<and> cp \<le> 0x1E95) \<or> (0x1EA0 \<le> cp \<and> cp \<le> 0x1EFF)) \<and> even cp
        then [cp + 1]
      else if cp = 0x212A then [0x6B]
      else if cp = 0x212B then [0xE5]
      else [cp])"

text \<open>The UTF-8 bytes of a code point below \<open>0x10000\<close>.\<close>

definition utf8 :: "int \<Rightarrow> string" where
  "utf8 cp =
     (if cp < 0x80 then [char_of cp]
      else if cp < 0x800 then [char_of (0xC0 + cp div 64), char_of (0x80 + cp mod 64)]
      else [char_of (0xE0 + cp div 4096), char_of (0x80 + cp div 64 mod 64),
            char_of (0x80 + cp mod 64)])"

text \<open>
  The bytes of one character in lower case: the bytes themselves when the character
  has no other lower-case form.
\<close>

definition pickLower :: "string \<Rightarrow> int \<Rightarrow> int list \<Rightarrow> string" where
  "pickLower bytes cp low = (if low = [cp] then bytes else concat (map utf8 low))"

definition lowerBytes :: "int \<Rightarrow> string \<Rightarrow> string" where
  "lowerBytes cp bytes = pickLower bytes cp (lowerCodePoint cp)"

text \<open>
  How many bytes the character at the head of a byte sequence takes: two or three for
  a well-formed two-byte or three-byte sequence, one otherwise (a longer or ill-formed
  sequence is passed on byte by byte, unchanged).
\<close>

definition isContinuation :: "int \<Rightarrow> bool" where
  "isContinuation b = (0x80 \<le> b \<and> b < 0xC0)"

definition twoBytes :: "int \<Rightarrow> int \<Rightarrow> bool" where
  "twoBytes b1 b2 = (0xC2 \<le> b1 \<and> b1 < 0xE0 \<and> isContinuation b2)"

definition threeBytes :: "int \<Rightarrow> int \<Rightarrow> int \<Rightarrow> bool" where
  "threeBytes b1 b2 b3 = (0xE0 \<le> b1 \<and> b1 < 0xF0 \<and> isContinuation b2 \<and> isContinuation b3)"

fun seqLen :: "int list \<Rightarrow> nat" where
  "seqLen (b1 # b2 # b3 # bs) =
     (if twoBytes b1 b2 then 2 else if threeBytes b1 b2 b3 then 3 else 1)"
| "seqLen [b1, b2] = (if twoBytes b1 b2 then 2 else 1)"
| "seqLen bs = 1"

fun lowerUnit :: "int list \<Rightarrow> string \<Rightarrow> string" where
  "lowerUnit [b1] bytes = (if b1 < 0x80 then lowerBytes b1 bytes else bytes)"
| "lowerUnit [b1, b2] bytes = lowerBytes ((b1 - 0xC0) * 64 + (b2 - 0x80)) bytes"
| "lowerUnit [b1, b2, b3] bytes =
     lowerBytes ((b1 - 0xE0) * 4096 + (b2 - 0x80) * 64 + (b3 - 0x80)) bytes"
| "lowerUnit bs bytes = bytes"

text \<open>The text character by character; \<open>bs\<close> holds the values of its bytes.\<close>

fun lowerFrom :: "int list \<Rightarrow> string \<Rightarrow> string" where
  "lowerFrom bs [] = []"
| "lowerFrom bs (c # cs) =
     lowerUnit (take (seqLen bs) bs) (take (seqLen bs) (c # cs))
       @ lowerFrom (drop (seqLen bs) bs) (drop (seqLen bs - 1) cs)"

definition toLowerCase :: "string \<Rightarrow> string" where
  "toLowerCase s = lowerFrom (map of_char s) s"

fun startsWith :: "string \<Rightarrow> string \<Rightarrow> bool" where
  "startsWith t [] = True"
| "startsWith [] (k # ks) = False"
| "startsWith (c # cs) (k # ks) = (c = k \<and> startsWith cs ks)"

text \<open>\<open>String.prototype.includes\<close>: does the text contain the needle as a substring.\<close>

fun str_includes :: "string \<Rightarrow> string \<Rightarrow> bool" where
  "str_includes [] k = (k = [])"
| "str_includes (c # cs) k = (startsWith (c # cs) k \<or> str_includes cs k)"

text \<open>Truthiness of a possibly-missing string, and the \<open>a || b\<close> idiom on such values.\<close>

definition truthy :: "string option \<Rightarrow> bool" where
  "truthy v = (case v of None \<Rightarrow> False | Some s \<Rightarrow> s \<noteq> [])"

definition or_else :: "string option \<Rightarrow> string option \<Rightarrow> string option" where
  "or_else a b = (if truthy a then a else b)"

subsection \<open>The regular-expression fragment of the source\<close>

text \<open>
  Without the \<open>u\<close> flag, \<open>\w\<close> is \<open>[A-Za-z0-9_]\<close> and \<open>\d\<close> is \<open>[0-9]\<close>. The assertion
  \<open>\b\<close> holds between the character before the position (if any) and the text that
  starts at the position, when exactly one side is a word character.
\<close>

definition isDigit :: "char \<Rightarrow> bool" where
  "isDigit c = (let n = (of_char c :: nat) in 48 \<le> n \<and> n \<le> 57)"

definition isWordChar :: "char \<Rightarrow> bool" where
  "isWordChar c =
     (let n = (of_char c :: nat)
      in (48 \<le> n \<and> n \<le> 57) \<or> (65 \<le> n \<and> n \<le> 90) \<or> (97 \<le> n \<and> n \<le> 122) \<or> n = 95)"

definition wordBefore :: "char option \<Rightarrow> bool" where
  "wordBefore prev = (case prev of None \<Rightarrow> False | Some c \<Rightarrow> isWordChar c)"

definition wordAfter :: "string \<Rightarrow> bool" where
  "wordAfter rest = (case rest of [] \<Rightarrow> False | c # _ \<Rightarrow> isWordChar c)"

definition boundary :: "char option \<Rightarrow> string \<Rightarrow> bool" where
  "boundary prev rest = (wordBefore prev \<noteq> wordAfter rest)"

definition digitVal :: "char \<Rightarrow> nat" where
  "digitVal c = of_char c - 48"

text \<open>
  \<open>/\b(\d{1,2})\b/\<close> tried at one position: the greedy quantifier takes two digits
  first and falls back to one digit when the closing \<open>\b\<close> fails. The value is what
  \<open>parseInt\<close> reads from the captured digits.
\<close>

definition ageAt :: "char option \<Rightarrow> string \<Rightarrow> nat option" where
  "ageAt prev rest =
     (if \<not> boundary prev rest then None
      else (case rest of
              [] \<Rightarrow> None
            | d1 # r1 \<Rightarrow>
                if \<not> isDigit d1 then None
                else (case r1 of
                        d2 # r2 \<Rightarrow>
                          if isDigit d2 \<and> boundary (Some d2) r2
                          then Some (10 * digitVal d1 + digitVal d2)
                          else if boundary (Some d1) r1 then Some (digitVal d1) else None
                      | [] \<Rightarrow> if boundary (Some d1) r1 then Some (digitVal d1) else None)))"

text \<open>\<open>text.match(/\b(\d{1,2})\b/)\<close>: the leftmost position where the pattern matches.\<close>

fun ageMatch :: "char option \<Rightarrow> string \<Rightarrow> nat option" where
  "ageMatch prev [] = ageAt prev []"
| "ageMatch prev (c # cs) =
     (case ageAt prev (c # cs) of Some a \<Rightarrow> Some a | None \<Rightarrow> ageMatch (Some c) cs)"

section \<open>Demographics extraction\<close>

record demographics =
  age :: "nat option"
  gender :: "string option"

definition extractDemographics :: "string option \<Rightarrow> error + demographics" where
  "extractDemographics original =
     (case original of
        None \<Rightarrow> Inl TypeError
      | Some text \<Rightarrow>
          (let ageField =
                 (case ageMatch None text of
                    None \<Rightarrow> None
                  | Some a \<Rightarrow> if a \<ge> 1 \<and> a \<le> 120 then Some a else None);
               lowerText = toLowerCase text;
               genderField =
                 (if str_includes lowerText ''male'' \<and> \<not> str_includes lowerText ''female''
                  then Some ''male''
                  else if str_includes lowerText ''female'' then Some ''female''
                  else None)
           in Inr \<lparr>age = ageField, gender = genderField\<rparr>))"

section \<open>Sessions, messages and replies\<close>

datatype stage =
    INITIAL | LANGUAGE_SELECTION | COLLECTING_DEMOGRAPHICS | COLLECTING_SYMPTOMS
  | ASSESSING_SEVERITY | EMERGENCY_DETECTED | PROVIDER_MATCHING | APPOINTMENT_BOOKING
  | FOLLOW_UP | COMPLETED

datatype symptom = Symptom string string string
  \<comment> \<open>name, severity, duration\<close>

record assessment =
  riskScore :: nat
  severity :: string
  recommendation :: string
  likelyConditions :: "(string \<times> nat) list"
  \<comment> \<open>condition name with its confidence in percent\<close>

record triage =
  symptoms :: "symptom list option"
  assessed :: "assessment option"
  \<comment> \<open>riskScore, severity, recommendation, likelyConditions: always written together\<close>

datatype provider = Provider string string string
  \<comment> \<open>id, name, specialty\<close>

text \<open>
  A session row. \<open>conversationState\<close> is \<open>None\<close> when the stored value is null or
  empty; \<open>preferredLanguage\<close> is the stored code, the empty string standing for a
  missing one (every consumer treats the two alike). Time stamps are not modelled.
\<close>

record session =
  session_id :: string
  phoneNumber :: string
  conversationState :: "stage option"
  preferredLanguage :: string
  userData :: demographics
  triageData :: triage

text \<open>The object handed to \<open>updateSession\<close>: a field is \<open>None\<close> when it is not given.\<close>

record updates =
  conversationState_u :: "stage option"
  preferredLanguage_u :: "string option"
  userData_u :: "demographics option"
  triageData_u :: "triage option"
  selectedProvider_u :: "provider option"

definition noUpdates :: updates where
  "noUpdates = \<lparr>conversationState_u = None, preferredLanguage_u = None, userData_u = None,
                 triageData_u = None, selectedProvider_u = None\<rparr>"

text \<open>
  \<open>MySQLService.updateSession\<close> on one row: only \<open>conversationState\<close>,
  \<open>preferredLanguage\<close>, \<open>userData\<close> and \<open>triageData\<close> are columns it writes
  (\<open>location\<close> is never passed by the conversation flow); any other key of the
  object, such as \<open>selectedProvider\<close>, is dropped.
\<close>

definition applyUpdates :: "updates \<Rightarrow> session \<Rightarrow> session" where
  "applyUpdates u s =
     (let s1 = (case conversationState_u u of None \<Rightarrow> s
                | Some st \<Rightarrow> s\<lparr>conversationState := Some st\<rparr>);
          s2 = (case preferredLanguage_u u of None \<Rightarrow> s1
                | Some l \<Rightarrow> s1\<lparr>preferredLanguage := l\<rparr>);
          s3 = (case userData_u u of None \<Rightarrow> s2 | Some d \<Rightarrow> s2\<lparr>userData := d\<rparr>);
          s4 = (case triageData_u u of None \<Rightarrow> s3 | Some t \<Rightarrow> s3\<lparr>triageData := t\<rparr>)
      in s4)"

record message =
  original :: "string option"
  phoneNumber_m :: "string option"
  type_m :: "string option"
  isButtonReply :: bool
  isListReply :: bool
  buttonId :: "string option"
  listId :: "string option"

text \<open>
  Reply texts are kept symbolic: \<open>Localized key language\<close> is what
  \<open>getLocalizedMessage(key, language)\<close> returns, the other constructors are the fixed
  texts of the source.
\<close>

datatype reply_text =
    Localized string string
  | HelloAndPrompt string
  | FollowUpQuestion string
  | ProviderInfo provider
  | EmergencyNumbers
  | NearbyHospitals
  | DidNotUnderstand
  | StartOver
  | ProcessingError
  | ConnectionTrouble
  | TechnicalDifficulties

datatype emergency_data = ByKeyword string | ByAssessment assessment

datatype response =
    Text reply_text
  | InteractiveList reply_text "string list"
  | InteractiveButtons reply_text "string list"
  | Welcome
  | Emergency emergency_data
  | TriageResults assessment "provider list"

type_synonym outcome = "updates list \<times> response"

definition updateSessionState :: "stage \<Rightarrow> updates" where
  "updateSessionState newState = noUpdates\<lparr>conversationState_u := Some newState\<rparr>"

section \<open>Emergency and symptom keyword search\<close>

datatype keyword_entry = Keywords "string list" | NotIterable | Missing

text \<open>
  Property names every object literal inherits: looking one of them up in the keyword
  table yields a function or object, which is truthy and cannot be iterated.
\<close>

definition inheritedKeys :: "string list" where
  "inheritedKeys =
     [''constructor'', ''toString'', ''toLocaleString'', ''valueOf'', ''hasOwnProperty'',
      ''isPrototypeOf'', ''propertyIsEnumerable'', ''__proto__'', ''__defineGetter__'',
      ''__defineSetter__'', ''__lookupGetter__'', ''__lookupSetter__'']"

definition emergencyKeywords :: "string \<Rightarrow> keyword_entry" where
  "emergencyKeywords language =
     (if language = ''en'' then
        Keywords [''emergency'', ''dying'', ''can'' @ [CHR 0x27] @ ''t breathe'', ''chest pain'',
                  ''unconscious'', ''bleeding'', ''heart attack'']
      else if language = ''pcm'' then
        Keywords [''I dey die'', ''kasala'', ''wahala big'', ''emergency'', ''I no fit breathe'']
      else if language = ''yo'' then
        Keywords [''pajawiri'',
                  ''mo '' @ [CHR 0xC5, CHR 0x84] @ '' k'' @ [CHR 0xC3, CHR 0xBA],
                  ''k'' @ [CHR 0xC3, CHR 0xAD] @ [CHR 0xC3, CHR 0xA1] @ ''k''
                    @ [CHR 0xC3, CHR 0xAD] @ [CHR 0xC3, CHR 0xA1],
                  [CHR 0xE1, CHR 0xBA, CHR 0xB9] @ ''mi k'' @ [CHR 0xC3, CHR 0xB2] @ '' l''
                    @ [CHR 0xC3, CHR 0xA8] @ '' m'' @ [CHR 0xC3, CHR 0xAD]]
      else if language = ''ha'' then
        Keywords [''gaggawa'', ''ina mutuwa'', ''nan take'', ''ba zan iya numfashi ba'']
      else if language = ''ig'' then
        Keywords [''mberede'',
                  ''ana m anw'' @ [CHR 0xE1, CHR 0xBB, CHR 0xA5],
                  ''ozugbo'',
                  ''enwegh'' @ [CHR 0xE1, CHR 0xBB, CHR 0x8B] @ '' m ike iku ume'']
      else if language \<in> set inheritedKeys then NotIterable
      else Missing)"

text \<open>The loop of \<open>checkForEmergency\<close>: the first keyword found in the text wins.\<close>

fun firstKeyword :: "string \<Rightarrow> string list \<Rightarrow> string option" where
  "firstKeyword lowerText [] = None"
| "firstKeyword lowerText (keyword # rest) =
     (if str_includes lowerText (toLowerCase keyword) then Some keyword
      else firstKeyword lowerText rest)"

text \<open>
  \<open>checkForEmergency\<close>: \<open>Inr (Some k)\<close> is \<open>{isEmergency: true, keyword: k,
  confidence: 0.9}\<close> and \<open>Inr None\<close> is \<open>{isEmergency: false}\<close>. A language without a
  list of its own falls back to the English list.
\<close>

definition checkForEmergency :: "string option \<Rightarrow> string \<Rightarrow> error + string option" where
  "checkForEmergency text language =
     (let keywords = (case emergencyKeywords language of
                        Missing \<Rightarrow> emergencyKeywords ''en'' | entry \<Rightarrow> entry)
      in case text of
           None \<Rightarrow> Inl TypeError
         | Some t \<Rightarrow>
             (case keywords of
                Keywords ks \<Rightarrow> Inr (firstKeyword (toLowerCase t) ks)
              | _ \<Rightarrow> Inl TypeError))"

definition symptomKeywords :: "string list" where
  "symptomKeywords =
     [''fever'', ''headache'', ''cough'', ''cold'', ''pain'', ''tired'', ''nausea'',
      ''vomit'', ''diarrhea'', ''stomach'', ''chest'', ''throat'', ''body aches'']"

definition extractSymptoms :: "string option \<Rightarrow> error + symptom list" where
  "extractSymptoms text =
     (case text of
        None \<Rightarrow> Inl TypeError
      | Some t \<Rightarrow>
          Inr (map (\<lambda>k. Symptom k ''mild'' ''unknown'')
                 (filter (\<lambda>k. str_includes (toLowerCase t) k) symptomKeywords)))"

text \<open>\<open>performBasicTriage\<close>: the symptoms of this message and \<open>needsMoreInfo\<close>.\<close>

definition performBasicTriage :: "message \<Rightarrow> session \<Rightarrow> error + (symptom list \<times> bool)" where
  "performBasicTriage msg s =
     (case extractSymptoms (original msg) of
        Inl e \<Rightarrow> Inl e
      | Inr found \<Rightarrow> Inr (found, length found < 2))"

section \<open>The conversation flow manager\<close>

text \<open>
  A handler returns the \<open>updateSession\<close> calls it makes, in order, with its reply, or
  the exception it throws. In every handler the operations that can throw come before
  its first \<open>updateSession\<close> call, so a thrown exception leaves no update behind. The
  metrics counters of the manager are not modelled.
\<close>

definition handleInitialContact :: "message \<Rightarrow> session \<Rightarrow> error + outcome" where
  "handleInitialContact msg s =
     (case checkForEmergency (original msg) ''en'' of
        Inl e \<Rightarrow> Inl e
      | Inr (Some k) \<Rightarrow> Inr ([updateSessionState EMERGENCY_DETECTED], Emergency (ByKeyword k))
      | Inr None \<Rightarrow> Inr ([updateSessionState LANGUAGE_SELECTION], Welcome))"

definition languageMap :: "(string \<times> string) list" where
  "languageMap =
     [(''english'', ''en''), (''pidgin'', ''pcm''), (''yoruba'', ''yo''), (''hausa'', ''ha''),
      (''igbo'', ''ig'')]"

fun selectLanguage :: "string \<Rightarrow> (string \<times> string) list \<Rightarrow> string" where
  "selectLanguage lowerMessage [] = ''en''"
| "selectLanguage lowerMessage ((name, code) # rest) =
     (if str_includes lowerMessage name then code else selectLanguage lowerMessage rest)"

definition handleLanguageSelection :: "message \<Rightarrow> session \<Rightarrow> error + outcome" where
  "handleLanguageSelection msg s =
     (case original msg of
        None \<Rightarrow> Inl TypeError
      | Some t \<Rightarrow>
          (let selectedLanguage = selectLanguage (toLowerCase t) languageMap
           in Inr ([noUpdates\<lparr>preferredLanguage_u := Some selectedLanguage,
                               conversationState_u := Some COLLECTING_DEMOGRAPHICS\<rparr>],
                   Text (HelloAndPrompt selectedLanguage))))"

text \<open>The object spread \<open>{...session.userData, ...demographics}\<close>.\<close>

definition mergeUserData :: "demographics \<Rightarrow> demographics \<Rightarrow> demographics" where
  "mergeUserData old new =
     \<lparr>age = (case age new of None \<Rightarrow> age old | Some a \<Rightarrow> Some a),
      gender = (case gender new of None \<Rightarrow> gender old | Some g \<Rightarrow> Some g)\<rparr>"

definition handleDemographicsCollection :: "message \<Rightarrow> session \<Rightarrow> error + outcome" where
  "handleDemographicsCollection msg s =
     (case extractDemographics (original msg) of
        Inr demographics \<Rightarrow>
          Inr ([noUpdates\<lparr>userData_u := Some (mergeUserData (userData s) demographics),
                           conversationState_u := Some COLLECTING_SYMPTOMS\<rparr>],
               Text (Localized ''symptoms_prompt'' (preferredLanguage s)))
      | Inl e \<Rightarrow>
          Inr ([], Text (Localized ''demographics_clarification'' (preferredLanguage s))))"

definition mockAssessment :: assessment where
  "mockAssessment =
     \<lparr>riskScore = 3, severity = ''MODERATE'',
      recommendation =
        ''Schedule an appointment with a healthcare provider within 24-48 hours'',
      likelyConditions = [(''Common Cold'', 70), (''Flu'', 60), (''Allergies'', 40)]\<rparr>"

definition findMockProviders :: "provider list" where
  "findMockProviders =
     [Provider ''1'' ''Dr. Adebayo Johnson'' ''General Practice'',
      Provider ''2'' ''Dr. Fatima Ali'' ''Family Medicine'',
      Provider ''3'' ''Lagos Medical Center'' ''Multi-specialty'']"

definition performRiskAssessment :: "session \<Rightarrow> error + outcome" where
  "performRiskAssessment s =
     (let assessment = mockAssessment;
          store = noUpdates\<lparr>triageData_u := Some ((triageData s)\<lparr>assessed := Some assessment\<rparr>)\<rparr>
      in if severity assessment = ''EMERGENCY''
         then Inr ([store, updateSessionState EMERGENCY_DETECTED],
                   Emergency (ByAssessment assessment))
         else Inr ([store, updateSessionState PROVIDER_MATCHING],
                   TriageResults assessment findMockProviders))"

definition handleSymptomCollection :: "message \<Rightarrow> session \<Rightarrow> error + outcome" where
  "handleSymptomCollection msg s =
     (let attempt =
            (case checkForEmergency (original msg) (preferredLanguage s) of
               Inl e \<Rightarrow> Inl e
             | Inr (Some k) \<Rightarrow>
                 Inr ([updateSessionState EMERGENCY_DETECTED], Emergency (ByKeyword k))
             | Inr None \<Rightarrow>
                 (case performBasicTriage msg s of
                    Inl e \<Rightarrow> Inl e
                  | Inr (found, needsMoreInfo) \<Rightarrow>
                      (let store = noUpdates\<lparr>triageData_u :=
                                     Some ((triageData s)\<lparr>symptoms := Some found\<rparr>)\<rparr>
                       in if needsMoreInfo
                          then Inr ([store], Text (FollowUpQuestion (preferredLanguage s)))
                          else (case performRiskAssessment s of
                                  Inl e \<Rightarrow> Inl e
                                | Inr (us, r) \<Rightarrow>
                                    Inr (store # updateSessionState ASSESSING_SEVERITY # us,
                                         r)))))
      in case attempt of
           Inl e \<Rightarrow>
             Inr ([], Text (Localized ''symptom_collection_error'' (preferredLanguage s)))
         | Inr out \<Rightarrow> Inr out)"

definition handleSeverityAssessment :: "message \<Rightarrow> session \<Rightarrow> error + outcome" where
  "handleSeverityAssessment msg s = performRiskAssessment s"

definition providerRowId :: "provider \<Rightarrow> string" where
  "providerRowId p = (case p of Provider i n sp \<Rightarrow> ''provider_'' @ i)"

definition handleProviderMatching :: "message \<Rightarrow> session \<Rightarrow> error + outcome" where
  "handleProviderMatching msg s =
     (let providers = findMockProviders
      in if length providers = 0
         then Inr ([], Text (Localized ''no_providers_found'' (preferredLanguage s)))
         else Inr ([], InteractiveList (Localized ''select_provider'' (preferredLanguage s))
                         (map providerRowId (take 10 providers))))"

definition handleAppointmentBooking :: "message \<Rightarrow> session \<Rightarrow> error + outcome" where
  "handleAppointmentBooking msg s =
     Inr ([updateSessionState COMPLETED],
          Text (Localized ''appointment_booked'' (preferredLanguage s)))"

definition handleProviderSelection :: "string \<Rightarrow> session \<Rightarrow> error + outcome" where
  "handleProviderSelection providerId s =
     (let provider = Provider providerId ''Dr. John Doe'' ''General Practitioner''
      in Inr ([updateSessionState APPOINTMENT_BOOKING,
               noUpdates\<lparr>selectedProvider_u := Some provider\<rparr>],
              InteractiveButtons (ProviderInfo provider)
                [''book_now'', ''call_provider'', ''get_directions'']))"

text \<open>
  \<open>replyId?.startsWith(p)\<close> is false for a missing id; after a successful
  \<open>startsWith(p)\<close>, \<open>replyId.replace(p, '')\<close> removes that leading occurrence.
\<close>

definition replyStartsWith :: "string option \<Rightarrow> string \<Rightarrow> bool" where
  "replyStartsWith replyId p = (case replyId of None \<Rightarrow> False | Some r \<Rightarrow> startsWith r p)"

definition afterPrefix :: "string option \<Rightarrow> string \<Rightarrow> string" where
  "afterPrefix replyId p = (case replyId of None \<Rightarrow> [] | Some r \<Rightarrow> drop (length p) r)"

definition handleInteractiveReply :: "message \<Rightarrow> session \<Rightarrow> error + outcome" where
  "handleInteractiveReply msg s =
     (let replyId = or_else (buttonId msg) (listId msg)
      in if replyStartsWith replyId ''lang_'' then
           (let selectedLanguage = afterPrefix replyId ''lang_''
            in Inr ([noUpdates\<lparr>preferredLanguage_u := Some selectedLanguage,
                                conversationState_u := Some COLLECTING_DEMOGRAPHICS\<rparr>],
                    Text (Localized ''demographics_prompt'' selectedLanguage)))
         else if replyStartsWith replyId ''provider_'' then
           handleProviderSelection (afterPrefix replyId ''provider_'') s
         else if replyId = Some ''find_hospitals'' then Inr ([], Text NearbyHospitals)
         else if replyId = Some ''call_emergency'' then Inr ([], Text EmergencyNumbers)
         else Inr ([], Text DidNotUnderstand))"

definition handleUnknownState :: "message \<Rightarrow> session \<Rightarrow> error + outcome" where
  "handleUnknownState msg s = Inr ([], Text StartOver)"

definition generateErrorResponse :: "string \<Rightarrow> response" where
  "generateErrorResponse language = Text (Localized ''general_error'' language)"

text \<open>\<open>session.conversationState || INITIAL\<close>.\<close>

definition currentState :: "session \<Rightarrow> stage" where
  "currentState s = (case conversationState s of None \<Rightarrow> INITIAL | Some st \<Rightarrow> st)"

definition manageConversation :: "message \<Rightarrow> session \<Rightarrow> outcome" where
  "manageConversation msg s =
     (let attempt =
            (if isButtonReply msg \<or> isListReply msg then handleInteractiveReply msg s
             else (case currentState s of
                     INITIAL \<Rightarrow> handleInitialContact msg s
                   | LANGUAGE_SELECTION \<Rightarrow> handleLanguageSelection msg s
                   | COLLECTING_DEMOGRAPHICS \<Rightarrow> handleDemographicsCollection msg s
                   | COLLECTING_SYMPTOMS \<Rightarrow> handleSymptomCollection msg s
                   | ASSESSING_SEVERITY \<Rightarrow> handleSeverityAssessment msg s
                   | PROVIDER_MATCHING \<Rightarrow> handleProviderMatching msg s
                   | APPOINTMENT_BOOKING \<Rightarrow> handleAppointmentBooking msg s
                   | _ \<Rightarrow> handleUnknownState msg s))
      in case attempt of
           Inl e \<Rightarrow>
             ([], generateErrorResponse
                    (if preferredLanguage s = [] then ''en'' else preferredLanguage s))
         | Inr out \<Rightarrow> out)"

text \<open>
  One turn on a stored session row: the updates of \<open>manageConversation\<close> are applied
  to the row in the order in which they are issued.
\<close>

definition runConversation :: "message \<Rightarrow> session \<Rightarrow> session \<times> response" where
  "runConversation msg s =
     (let (us, r) = manageConversation msg s in (foldl (\<lambda>row u. applyUpdates u row) s us, r))"

text \<open>The stage writes of one turn, in order.\<close>

definition stageWrites :: "updates list \<Rightarrow> stage list" where
  "stageWrites us = List.map_filter conversationState_u us"

text \<open>The fixed ordering of the stages of the automated flow.\<close>

fun rank :: "stage \<Rightarrow> nat option" where
  "rank INITIAL = Some 0"
| "rank LANGUAGE_SELECTION = Some 1"
| "rank COLLECTING_DEMOGRAPHICS = Some 2"
| "rank COLLECTING_SYMPTOMS = Some 3"
| "rank ASSESSING_SEVERITY = Some 4"
| "rank PROVIDER_MATCHING = Some 5"
| "rank APPOINTMENT_BOOKING = Some 6"
| "rank COMPLETED = Some 7"
| "rank EMERGENCY_DETECTED = None"
| "rank FOLLOW_UP = None"

section \<open>Language detection\<close>

text \<open>
  A pattern \<open>/\b(w1|w2|...)\b/gi\<close> is the list of its alternatives. The text given to
  it is already in lower case and so are the alternatives, so the \<open>i\<close> flag adds
  nothing. At one position the first alternative wins that matches the text there and
  is followed by a word boundary.
\<close>

definition altMatches :: "char option \<Rightarrow> string \<Rightarrow> string \<Rightarrow> bool" where
  "altMatches prev rest w =
     (startsWith rest w \<and>
      boundary (if w = [] then prev else Some (last w)) (drop (length w) rest))"

definition matchAt :: "string list \<Rightarrow> char option \<Rightarrow> string \<Rightarrow> string option" where
  "matchAt alts prev rest =
     (if boundary prev rest then find (altMatches prev rest) alts else None)"

text \<open>
  \<open>lowerText.match(pattern)\<close> with the \<open>g\<close> flag: the matches are found from left to
  right and the search resumes where the previous match ended; \<open>skip\<close> counts the
  characters of the current match still to be passed. No alternative of the source is
  empty, so nothing matches at the end of the text.
\<close>

fun countFrom :: "string list \<Rightarrow> nat \<Rightarrow> char option \<Rightarrow> string \<Rightarrow> nat" where
  "countFrom alts skip prev [] = 0"
| "countFrom alts skip prev (c # cs) =
     (if skip > 0 then countFrom alts (skip - 1) (Some c) cs
      else (case matchAt alts prev (c # cs) of
              Some w \<Rightarrow> 1 + countFrom alts (length w - 1) (Some c) cs
            | None \<Rightarrow> countFrom alts 0 (Some c) cs))"

definition countMatches :: "string list \<Rightarrow> string \<Rightarrow> nat" where
  "countMatches alts lowerText = countFrom alts 0 None lowerText"

definition LANGUAGE_PATTERNS :: "(string \<times> string list list) list" where
  "LANGUAGE_PATTERNS =
     [(''pidgin'',
       [[''wetin'', ''dey'', ''no'', ''na'', ''go'', ''fit'', ''sabi'', ''abi'', ''sha'', ''oya'',
         ''make'', ''dem'', ''una'', ''dis'', ''dat''],
        [''how far'', ''how body'', ''i wan'', ''e be say'', ''no wahala'', ''small small'']]),
      (''yoruba'',
       [[''bawo'', ''pele'', ''emi'', ''iwo'', ''wa'', ''ni'', ''ti'', ''se'', ''ko'', ''fun'',
         ''ninu'', ''lati'', ''si'', ''ati''],
        [''mo fe'', ''mo ni'', ''o dara'', ''alafia'', ''ese'', ''tutu'', ''gbona'', ''inu'',
         ''ori'', ''owo'']]),
      (''igbo'',
       [[''kedu'', ''ndewo'', ''m'', ''gi'', ''ka'', ''nke'', ''ya'', ''ndi'', ''unu'', ''aha'',
         ''obi'', ''isi'', ''aka''],
        [''achoro m'', ''o di mma'', ''nke oma'', ''nnoo'', ''daalu'', ''aru'', ''onya'',
         ''mmiri'']]),
      (''hausa'',
       [[''sannu'', ''yaya'', ''ina'', ''ka'', ''ki'', ''mu'', ''su'', ''da'', ''a'', ''ba'', ''ko'',
         ''mai'', ''wannan'', ''wancan''],
        [''lafiya'', ''maraba'', ''na gode'', ''ina son'', ''ba komai'', ''jiki'', ''kai'',
         ''hannu'', ''kafa'']])]"

text \<open>
  The \<open>scores\<close> object after the scoring loop, as \<open>Object.entries\<close> lists it: the keys
  in the order of the literal (pidgin, yoruba, igbo, hausa), each with the matches of
  its patterns added up.
\<close>

definition patternScore :: "string \<Rightarrow> string \<Rightarrow> nat" where
  "patternScore lowerText lang =
     (case map_of LANGUAGE_PATTERNS lang of
        None \<Rightarrow> 0
      | Some patterns \<Rightarrow> sum_list (map (\<lambda>alts. countMatches alts lowerText) patterns))"

definition languageScores :: "string \<Rightarrow> (string \<times> nat) list" where
  "languageScores text =
     map (\<lambda>lang. (lang, patternScore (toLowerCase text) lang))
       [''pidgin'', ''yoruba'', ''igbo'', ''hausa'']"

text \<open>
  \<open>entries.reduce((a, b) => scores[a] > scores[b] ? a : b)\<close>, started on the first
  entry.
\<close>

fun highest :: "(string \<times> nat) \<Rightarrow> (string \<times> nat) list \<Rightarrow> (string \<times> nat)" where
  "highest a [] = a"
| "highest a (b # bs) = highest (if snd a > snd b then a else b) bs"

definition detectLanguage :: "string \<Rightarrow> string" where
  "detectLanguage text =
     (case languageScores text of
        [] \<Rightarrow> ''english''
      | first # others \<Rightarrow>
          (let detected = highest first others
           in if snd detected > 0 then fst detected else ''english''))"

section \<open>The webhook handler\<close>

record sender =
  phone :: "string option"

record inner_payload =
  type_p :: "string option"
  sender_p :: "sender option"
  text_p :: "string option"
  title_p :: "string option"
  id_p :: "string option"
  caption_p :: "string option"

record webhook_payload =
  id_w :: "string option"
  type_w :: "string option"
  mobile_w :: "string option"
  text_w :: "string option"
  payload_w :: "inner_payload option"

text \<open>Optional chaining: \<open>payload.payload?.f\<close> and \<open>payload.payload?.sender?.phone\<close>.\<close>

definition inner :: "(inner_payload \<Rightarrow> string option) \<Rightarrow> webhook_payload \<Rightarrow> string option" where
  "inner f p = (case payload_w p of None \<Rightarrow> None | Some i \<Rightarrow> f i)"

definition senderPhone :: "webhook_payload \<Rightarrow> string option" where
  "senderPhone p =
     (case payload_w p of
        None \<Rightarrow> None
      | Some i \<Rightarrow> (case sender_p i of None \<Rightarrow> None | Some sd \<Rightarrow> phone sd))"

text \<open>\<open>/^\+?[1-9]\d{1,14}$/.test(phoneNumber)\<close>.\<close>

definition phoneFormatOk :: "string \<Rightarrow> bool" where
  "phoneFormatOk n =
     (let digits = (case n of [] \<Rightarrow> [] | c # r \<Rightarrow> if c = CHR ''+'' then r else c # r)
      in case digits of
           [] \<Rightarrow> False
         | d # ds \<Rightarrow>
             isDigit d \<and> d \<noteq> CHR ''0'' \<and> 1 \<le> length ds \<and> length ds \<le> 14 \<and> list_all isDigit ds)"

definition validateWebhookPayload :: "webhook_payload option \<Rightarrow> bool \<times> string list" where
  "validateWebhookPayload payload =
     (case payload of
        None \<Rightarrow> (False, [''Empty payload''])
      | Some p \<Rightarrow>
          (let e1 = (if \<not> truthy (type_w p) \<and> \<not> truthy (inner type_p p)
                     then [''Missing message type''] else []);
               phoneNumber = or_else (senderPhone p) (mobile_w p);
               e2 = (if \<not> truthy phoneNumber then [''Missing phone number''] else []);
               e3 = (case phoneNumber of
                       None \<Rightarrow> []
                     | Some n \<Rightarrow>
                         if n \<noteq> [] \<and> \<not> phoneFormatOk n
                         then [''Invalid phone number format''] else []);
               errors = e1 @ e2 @ e3
           in (length errors = 0, errors)))"

record messageData =
  messageId :: "string option"
  phoneNumber_d :: "string option"
  messageType :: "string option"
  content :: "string option"
  isButtonReply_d :: bool
  isListReply_d :: bool
  buttonId_d :: "string option"
  listId_d :: "string option"

text \<open>
  \<open>GupshupService.parseIncomingMessage\<close>. It returns null only when reading the
  payload throws, which the property reads of the model cannot do. The time stamp and
  the media URL are not modelled.
\<close>

definition parseIncomingMessage :: "webhook_payload \<Rightarrow> messageData option" where
  "parseIncomingMessage p =
     (let md = \<lparr>messageId = id_w p,
                phoneNumber_d = or_else (senderPhone p) (mobile_w p),
                messageType = or_else (inner type_p p) (type_w p),
                content = None, isButtonReply_d = False, isListReply_d = False,
                buttonId_d = None, listId_d = None\<rparr>
      in Some
           (if messageType md = Some ''text'' then
              md\<lparr>content := or_else (inner text_p p) (text_w p)\<rparr>
            else if messageType md = Some ''button_reply'' then
              md\<lparr>content := inner title_p p, buttonId_d := inner id_p p,
                 isButtonReply_d := True\<rparr>
            else if messageType md = Some ''list_reply'' then
              md\<lparr>content := inner title_p p, listId_d := inner id_p p,
                 isListReply_d := True\<rparr>
            else if messageType md \<in> {Some ''image'', Some ''document'', Some ''audio''} then
              md\<lparr>content := or_else (inner caption_p p) (Some ''Media received'')\<rparr>
            else md\<lparr>content := Some ''Unsupported message type''\<rparr>))"

definition statusTypes :: "string list" where
  "statusTypes = [''delivered'', ''read'', ''sent'', ''failed'', ''enroute'']"

definition isStatusMessage :: "webhook_payload \<Rightarrow> bool" where
  "isStatusMessage p =
     ((case type_w p of None \<Rightarrow> False | Some t \<Rightarrow> t \<in> set statusTypes) \<or>
      (case inner type_p p of None \<Rightarrow> False | Some t \<Rightarrow> t \<in> set statusTypes))"

subsection \<open>The stores\<close>

text \<open>
  The database is the one \<open>MySQLService.initializeSchema\<close> creates and the session
  manager works on: its \<open>sessions\<close> table and its \<open>conversationHistory\<close> table, to which
  \<open>SessionManager.addToHistory\<close> appends. \<open>ChatService\<close> keeps the processed-message
  markers in a table \<open>conversation_history\<close> of its own, which is taken to exist with
  the columns its statements name. The messages handed to the channel are collected in
  \<open>outbox\<close>. Lost connections and failures of the channel are not modelled; the errors
  that the statements of the source raise by themselves are.
\<close>

datatype db_error = UnknownColumn string | UndefinedParameter

text \<open>The message of the error object, which \<open>sendErrorMessage\<close> inspects.\<close>

definition errorText :: "db_error \<Rightarrow> string" where
  "errorText e =
     (case e of
        UnknownColumn c \<Rightarrow>
          ''Unknown column '' @ [CHR 0x27] @ c @ [CHR 0x27] @ '' in '' @ [CHR 0x27]
            @ ''where clause'' @ [CHR 0x27]
      | UndefinedParameter \<Rightarrow>
          ''Bind parameters must not contain undefined. To pass SQL NULL specify JS null'')"

record marker =
  session_id_h :: string
  content_h :: string
  messageId_h :: string

record world =
  sessions :: "session list"
  conversation_history :: "marker list"
  conversationHistory :: "(string \<times> response) list"
  outbox :: "(string \<times> response) list"

text \<open>The columns of \<open>sessions\<close> in \<open>MySQLService.initializeSchema\<close>.\<close>

definition sessionsColumns :: "string list" where
  "sessionsColumns =
     [''id'', ''phoneNumber'', ''conversationState'', ''preferredLanguage'', ''userData'',
      ''triageData'', ''location'', ''createdAt'', ''updatedAt'']"

text \<open>The value a statement reads from a named column of a session row.\<close>

definition column :: "string \<Rightarrow> session \<Rightarrow> string option" where
  "column name s =
     (if name = ''id'' then Some (session_id s)
      else if name = ''phoneNumber'' then Some (phoneNumber s)
      else None)"

text \<open>
  \<open>ChatService.isMessageProcessed\<close>: \<open>SELECT COUNT(*) FROM conversation_history ch JOIN
  sessions s ON ch.session_id = s.id WHERE s.phone_number = ? AND
  JSON_EXTRACT(ch.metadata, '$.messageId') = ?\<close>, and \<open>count > 0\<close>. The statement names
  the column \<open>s.phone_number\<close>; the server refuses a statement that names a column the
  table does not have (as it refuses one that names a missing table).
\<close>

definition isMessageProcessed :: "string \<Rightarrow> string \<Rightarrow> world \<Rightarrow> db_error + bool" where
  "isMessageProcessed mid phoneNo w =
     (if ''phone_number'' \<notin> set sessionsColumns then Inl (UnknownColumn ''s.phone_number'')
      else Inr (list_ex (\<lambda>ch. list_ex (\<lambda>s. column ''id'' s = Some (session_id_h ch)
                                         \<and> column ''phone_number'' s = Some phoneNo
                                         \<and> messageId_h ch = mid) (sessions w))
                  (conversation_history w)))"

text \<open>
  \<open>ChatService.markWebhookMessageProcessed\<close>: the \<open>INSERT\<close> binds
  \<open>messageData.content\<close>, and the driver throws on an \<open>undefined\<close> parameter.
\<close>

definition markWebhookMessageProcessed ::
    "string \<Rightarrow> string \<Rightarrow> string \<Rightarrow> messageData \<Rightarrow> world \<Rightarrow> db_error + world" where
  "markWebhookMessageProcessed mid phoneNo sid md w =
     (case content md of
        None \<Rightarrow> Inl UndefinedParameter
      | Some c \<Rightarrow>
          Inr (w\<lparr>conversation_history := conversation_history w @
                 [\<lparr>session_id_h = sid, content_h = c, messageId_h = mid\<rparr>]\<rparr>))"

text \<open>
  \<open>SessionManager.getOrCreateSession\<close>; \<open>newId\<close> is the identifier that
  \<open>generateSessionId\<close> draws from the clock and the random generator.
\<close>

definition getOrCreateSession :: "string \<Rightarrow> string \<Rightarrow> world \<Rightarrow> session \<times> world" where
  "getOrCreateSession newId phoneNo w =
     (case find (\<lambda>s. phoneNumber s = phoneNo) (sessions w) of
        Some existingSession \<Rightarrow> (existingSession, w)
      | None \<Rightarrow>
          (let newSession =
                 \<lparr>session_id = newId, phoneNumber = phoneNo, conversationState = Some INITIAL,
                  preferredLanguage = ''en'', userData = \<lparr>age = None, gender = None\<rparr>,
                  triageData = \<lparr>symptoms = None, assessed = None\<rparr>\<rparr>
           in (newSession, w\<lparr>sessions := sessions w @ [newSession]\<rparr>)))"

text \<open>\<open>SessionManager.updateSession\<close>: \<open>UPDATE sessions SET ... WHERE id = ?\<close>.\<close>

definition updateSession :: "string \<Rightarrow> updates \<Rightarrow> world \<Rightarrow> world" where
  "updateSession sid u w =
     w\<lparr>sessions := map (\<lambda>s. if session_id s = sid then applyUpdates u s else s) (sessions w)\<rparr>"

definition sendResponse :: "string \<Rightarrow> response \<Rightarrow> world \<Rightarrow> world" where
  "sendResponse phoneNo r w = w\<lparr>outbox := outbox w @ [(phoneNo, r)]\<rparr>"

definition addToHistory :: "string \<Rightarrow> response \<Rightarrow> world \<Rightarrow> world" where
  "addToHistory sid r w = w\<lparr>conversationHistory := conversationHistory w @ [(sid, r)]\<rparr>"

definition toMessage :: "messageData \<Rightarrow> message" where
  "toMessage md =
     \<lparr>original = content md, phoneNumber_m = phoneNumber_d md, type_m = messageType md,
      isButtonReply = isButtonReply_d md, isListReply = isListReply_d md,
      buttonId = buttonId_d md, listId = listId_d md\<rparr>"

text \<open>
  \<open>sendErrorMessage\<close>: the apology chosen by the text of the error.
\<close>

definition sendErrorMessage :: "string \<Rightarrow> db_error \<Rightarrow> world \<Rightarrow> world" where
  "sendErrorMessage phoneNo e w =
     w\<lparr>outbox := outbox w @
          [(phoneNo,
            Text (if str_includes (errorText e) ''network'' \<or> str_includes (errorText e) ''timeout''
                  then ConnectionTrouble
                  else if str_includes (errorText e) ''database'' then TechnicalDifficulties
                  else ProcessingError))]\<rparr>"

text \<open>
  \<open>processUserMessage\<close>. Validation has established a phone number before the call;
  without one the database calls of the source fail, the error is caught and nothing
  is stored. An error of a statement ends the \<open>try\<close> block where it is raised, with
  what was stored before, and the \<open>catch\<close> block sends the apology.
\<close>

definition processUserMessage :: "string \<Rightarrow> messageData \<Rightarrow> world \<Rightarrow> world" where
  "processUserMessage newId md w =
     (case phoneNumber_d md of
        None \<Rightarrow> w
      | Some phoneNo \<Rightarrow>
          (case (if truthy (messageId md)
                 then (case messageId md of
                         None \<Rightarrow> Inr False
                       | Some mid \<Rightarrow> isMessageProcessed mid phoneNo w)
                 else Inr False) of
             Inl e \<Rightarrow> sendErrorMessage phoneNo e w
           | Inr True \<Rightarrow> w
           | Inr False \<Rightarrow>
               (let (session, w1) = getOrCreateSession newId phoneNo w
                in case (if truthy (messageId md)
                         then (case messageId md of
                                 None \<Rightarrow> Inr w1
                               | Some mid \<Rightarrow>
                                   markWebhookMessageProcessed mid phoneNo (session_id session)
                                     md w1)
                         else Inr w1) of
                     Inl e \<Rightarrow> sendErrorMessage phoneNo e w1
                   | Inr w2 \<Rightarrow>
                       (let (us, r) = manageConversation (toMessage md) session;
                            w3 = foldl (\<lambda>acc u. updateSession (session_id session) u acc) w2 us;
                            w4 = sendResponse phoneNo r w3
                        in addToHistory (session_id session) r w4))))"

datatype result = StatusProcessed | Success "string option"

definition processWebhook ::
    "string \<Rightarrow> webhook_payload option \<Rightarrow> world \<Rightarrow> (error + result) \<times> world" where
  "processWebhook newId payload w =
     (let (isValid, errors) = validateWebhookPayload payload
      in if \<not> isValid then (Inl (InvalidPayload errors), w)
         else (case payload of
                 None \<Rightarrow> (Inl (InvalidPayload errors), w)
               | Some p \<Rightarrow>
                   (case parseIncomingMessage p of
                      None \<Rightarrow> (Inl CannotParse, w)
                    | Some md \<Rightarrow>
                        if isStatusMessage p then (Inr StatusProcessed, w)
                        else (Inr (Success (messageId md)), processUserMessage newId md w))))"

section \<open>Notions used to state the properties\<close>

text \<open>
  The condition under which the validation step refuses a payload, in the terms of the
  normalised message: no message type, no phone number, or a phone number that fails
  the format check. A missing payload has neither a type nor a phone number.
\<close>

definition rejected :: "webhook_payload option \<Rightarrow> bool" where
  "rejected payload =
     (case payload of
        None \<Rightarrow> True
      | Some p \<Rightarrow>
          \<not> truthy (or_else (inner type_p p) (type_w p)) \<or>
          \<not> truthy (or_else (senderPhone p) (mobile_w p)) \<or>
          (case or_else (senderPhone p) (mobile_w p) of
             None \<Rightarrow> False | Some n \<Rightarrow> \<not> phoneFormatOk n))"

subsection \<open>Sample inputs\<close>

definition textMessage :: "string \<Rightarrow> message" where
  "textMessage t =
     \<lparr>original = Some t, phoneNumber_m = Some ''2348012345678'', type_m = Some ''text'',
      isButtonReply = False, isListReply = False, buttonId = None, listId = None\<rparr>"

definition buttonReply :: "string \<Rightarrow> string \<Rightarrow> message" where
  "buttonReply title ident =
     \<lparr>original = Some title, phoneNumber_m = Some ''2348012345678'',
      type_m = Some ''button_reply'', isButtonReply = True, isListReply = False,
      buttonId = Some ident, listId = None\<rparr>"

definition sessionAt :: "stage \<Rightarrow> session" where
  "sessionAt st =
     \<lparr>session_id = ''sess_1'', phoneNumber = ''2348012345678'', conversationState = Some st,
      preferredLanguage = ''en'', userData = \<lparr>age = None, gender = None\<rparr>,
      triageData = \<lparr>symptoms = None, assessed = None\<rparr>\<rparr>"

definition cannotBreathe :: string where
  "cannotBreathe = ''I can'' @ [CHR 0x27] @ ''t breathe, emergency''"

text \<open>
  The Yoruba keyword "mo n ku", written with an acute accent on the n and on the u, and
  the same words in capitals.
\<close>

definition moNKu :: string where
  "moNKu = ''mo '' @ [CHR 0xC5, CHR 0x84] @ '' k'' @ [CHR 0xC3, CHR 0xBA]"

definition shoutedMoNKu :: string where
  "shoutedMoNKu = ''MO '' @ [CHR 0xC5, CHR 0x83] @ '' K'' @ [CHR 0xC3, CHR 0x9A]"

definition textPayload :: "string option \<Rightarrow> string \<Rightarrow> string \<Rightarrow> webhook_payload" where
  "textPayload ident phoneNo t =
     \<lparr>id_w = ident, type_w = Some ''message'', mobile_w = None, text_w = None,
      payload_w = Some \<lparr>type_p = Some ''text'', sender_p = Some \<lparr>phone = Some phoneNo\<rparr>,
                        text_p = Some t, title_p = None, id_p = None, caption_p = None\<rparr>\<rparr>"

definition emptyWorld :: world where
  "emptyWorld = \<lparr>sessions = [], conversation_history = [], conversationHistory = [],
                  outbox = []\<rparr>"

section \<open>Auxiliary facts\<close>

lemma firstKeyword_found:
  "k \<in> set ks \<Longrightarrow> str_includes lt (toLowerCase k) \<Longrightarrow> \<exists>k'. firstKeyword lt ks = Some k'"
  by (induction ks) auto

lemma conversationState_applyUpdates:
  "conversationState (applyUpdates u s) =
     (case conversationState_u u of None \<Rightarrow> conversationState s | Some st \<Rightarrow> Some st)"
  by (simp add: applyUpdates_def Let_def split: option.splits)

lemma conversationState_updateSessionState [simp]:
  "conversationState (applyUpdates (updateSessionState st) s) = Some st"
  by (simp add: conversationState_applyUpdates updateSessionState_def noUpdates_def)

lemma applyUpdates_keeps [simp]:
  "session_id (applyUpdates u s) = session_id s"
  "phoneNumber (applyUpdates u s) = phoneNumber s"
  by (simp_all add: applyUpdates_def Let_def split: option.splits)

subsection \<open>What each handler writes\<close>

lemma firstKeyword_SomeD:
  "firstKeyword lt ks = Some k \<Longrightarrow> k \<in> set ks \<and> str_includes lt (toLowerCase k)"
  by (induction ks) (auto split: if_splits)

lemma checkForEmergency_fires_iff:
  "(\<exists>k. checkForEmergency tx language = Inr (Some k)) =
     (\<exists>t ks k. tx = Some t \<and> k \<in> set ks \<and> str_includes (toLowerCase t) (toLowerCase k) \<and>
        (emergencyKeywords language = Keywords ks \<or>
         emergencyKeywords language = Missing \<and> emergencyKeywords ''en'' = Keywords ks))"
proof
  assume "\<exists>k. checkForEmergency tx language = Inr (Some k)"
  then obtain k where k: "checkForEmergency tx language = Inr (Some k)" by blast
  then obtain t where t: "tx = Some t" by (cases tx) (simp_all add: checkForEmergency_def)
  show "\<exists>t ks k. tx = Some t \<and> k \<in> set ks \<and> str_includes (toLowerCase t) (toLowerCase k) \<and>
        (emergencyKeywords language = Keywords ks \<or>
         emergencyKeywords language = Missing \<and> emergencyKeywords ''en'' = Keywords ks)"
  proof (cases "emergencyKeywords language")
    case (Keywords ks)
    with k t have "firstKeyword (toLowerCase t) ks = Some k"
      by (simp add: checkForEmergency_def)
    from firstKeyword_SomeD [OF this] t Keywords show ?thesis by blast
  next
    case NotIterable
    with k t show ?thesis by (simp add: checkForEmergency_def)
  next
    case Missing
    obtain ks where en: "emergencyKeywords ''en'' = Keywords ks"
      by (simp add: emergencyKeywords_def)
    with k t Missing have "firstKeyword (toLowerCase t) ks = Some k"
      by (simp add: checkForEmergency_def)
    from firstKeyword_SomeD [OF this] t Missing en show ?thesis by blast
  qed
next
  assume "\<exists>t ks k. tx = Some t \<and> k \<in> set ks \<and> str_includes (toLowerCase t) (toLowerCase k) \<and>
        (emergencyKeywords language = Keywords ks \<or>
         emergencyKeywords language = Missing \<and> emergencyKeywords ''en'' = Keywords ks)"
  then obtain t ks k where t: "tx = Some t" and kw: "k \<in> set ks"
      "str_includes (toLowerCase t) (toLowerCase k)"
    and tab: "emergencyKeywords language = Keywords ks \<or>
         emergencyKeywords language = Missing \<and> emergencyKeywords ''en'' = Keywords ks"
    by blast
  obtain k' where "firstKeyword (toLowerCase t) ks = Some k'"
    using firstKeyword_found [OF kw] by blast
  with t tab show "\<exists>k. checkForEmergency tx language = Inr (Some k)"
    by (auto simp: checkForEmergency_def)
qed


lemma writes_simps:
  "stageWrites [] = []"
  "stageWrites (updateSessionState st # us) = st # stageWrites us"
  "stageWrites (noUpdates\<lparr>triageData_u := x\<rparr> # us) = stageWrites us"
  "stageWrites (noUpdates\<lparr>selectedProvider_u := y\<rparr> # us) = stageWrites us"
  "stageWrites (noUpdates\<lparr>preferredLanguage_u := z, conversationState_u := Some st\<rparr> # us)
     = st # stageWrites us"
  "stageWrites (noUpdates\<lparr>userData_u := v, conversationState_u := Some st\<rparr> # us)
     = st # stageWrites us"
  by (simp_all add: stageWrites_def List.map_filter_simps updateSessionState_def noUpdates_def)

lemma reply_outcome:
  assumes "isButtonReply m \<or> isListReply m"
  shows "stageWrites (fst (manageConversation m s)) \<in>
           {[], [COLLECTING_DEMOGRAPHICS], [APPOINTMENT_BOOKING]}
         \<and> (\<forall>d. snd (manageConversation m s) \<noteq> Emergency d)"
  using assms
  by (auto simp: manageConversation_def handleInteractiveReply_def handleProviderSelection_def
      writes_simps Let_def)

lemma riskAssessment_outcome:
  "\<exists>us r. performRiskAssessment s = Inr (us, r) \<and> stageWrites us = [PROVIDER_MATCHING]
     \<and> (\<forall>d. r \<noteq> Emergency d)"
  by (simp add: performRiskAssessment_def mockAssessment_def writes_simps Let_def)

lemma initial_outcome:
  "stageWrites (fst (case handleInitialContact m s of Inl e \<Rightarrow> ([], r0) | Inr out \<Rightarrow> out))
     = (case checkForEmergency (original m) ''en'' of
          Inr (Some k) \<Rightarrow> [EMERGENCY_DETECTED] | Inr None \<Rightarrow> [LANGUAGE_SELECTION] | Inl e \<Rightarrow> [])"
  by (simp add: handleInitialContact_def writes_simps split: sum.splits option.splits)

lemma symptoms_outcome:
  "stageWrites (fst (case handleSymptomCollection m s of Inl e \<Rightarrow> ([], r0) | Inr out \<Rightarrow> out))
     = (case checkForEmergency (original m) (preferredLanguage s) of
          Inr (Some k) \<Rightarrow> [EMERGENCY_DETECTED]
        | Inr None \<Rightarrow>
            (case performBasicTriage m s of
               Inr (found, False) \<Rightarrow> [ASSESSING_SEVERITY, PROVIDER_MATCHING]
             | _ \<Rightarrow> [])
        | Inl e \<Rightarrow> [])"
  using riskAssessment_outcome [of s]
  by (auto simp: handleSymptomCollection_def writes_simps Let_def
      split: sum.splits option.splits prod.splits bool.splits)


lemma other_stage_outcome:
  assumes "\<not> isButtonReply m" "\<not> isListReply m"
    and "currentState s \<noteq> INITIAL" "currentState s \<noteq> COLLECTING_SYMPTOMS"
  shows "EMERGENCY_DETECTED \<notin> set (stageWrites (fst (manageConversation m s)))
         \<and> (\<forall>d. snd (manageConversation m s) \<noteq> Emergency d)"
proof (cases "currentState s")
  case LANGUAGE_SELECTION
  with assms show ?thesis
    by (auto simp: manageConversation_def handleLanguageSelection_def generateErrorResponse_def
        writes_simps Let_def split: option.splits)
next
  case COLLECTING_DEMOGRAPHICS
  with assms show ?thesis
    by (auto simp: manageConversation_def handleDemographicsCollection_def writes_simps
        split: sum.splits)
next
  case ASSESSING_SEVERITY
  with assms riskAssessment_outcome [of s] show ?thesis
    by (auto simp: manageConversation_def handleSeverityAssessment_def)
next
  case PROVIDER_MATCHING
  with assms show ?thesis
    by (simp add: manageConversation_def handleProviderMatching_def findMockProviders_def
        writes_simps)
next
  case APPOINTMENT_BOOKING
  with assms show ?thesis
    by (simp add: manageConversation_def handleAppointmentBooking_def writes_simps)
qed (use assms in \<open>simp_all add: manageConversation_def handleUnknownState_def writes_simps\<close>)

lemma emergency_written_iff:
  "(EMERGENCY_DETECTED \<in> set (stageWrites (fst (manageConversation m s)))) =
     (\<not> isButtonReply m \<and> \<not> isListReply m \<and>
      (currentState s = COLLECTING_SYMPTOMS \<and>
         (\<exists>k. checkForEmergency (original m) (preferredLanguage s) = Inr (Some k))
       \<or> currentState s = INITIAL \<and> (\<exists>k. checkForEmergency (original m) ''en'' = Inr (Some k))))"
proof (cases "isButtonReply m \<or> isListReply m")
  case True
  from reply_outcome [OF True, of s] True show ?thesis by auto
next
  case free: False
  show ?thesis
  proof (cases "currentState s = INITIAL")
    case True
    have w: "stageWrites (fst (manageConversation m s))
        = (case checkForEmergency (original m) ''en'' of
             Inr (Some k) \<Rightarrow> [EMERGENCY_DETECTED] | Inr None \<Rightarrow> [LANGUAGE_SELECTION]
           | Inl e \<Rightarrow> [])"
      using free True by (simp add: manageConversation_def initial_outcome)
    show ?thesis
    proof (cases "checkForEmergency (original m) ''en''")
      case (Inl e)
      with w free True show ?thesis by simp
    next
      case (Inr r)
      with w free True show ?thesis by (cases r) simp_all
    qed
  next
    case notInitial: False
    show ?thesis
    proof (cases "currentState s = COLLECTING_SYMPTOMS")
      case True
      have w: "stageWrites (fst (manageConversation m s))
        = (case checkForEmergency (original m) (preferredLanguage s) of
             Inr (Some k) \<Rightarrow> [EMERGENCY_DETECTED]
           | Inr None \<Rightarrow>
               (case performBasicTriage m s of
                  Inr (found, False) \<Rightarrow> [ASSESSING_SEVERITY, PROVIDER_MATCHING]
                | _ \<Rightarrow> [])
           | Inl e \<Rightarrow> [])"
        using free True by (simp add: manageConversation_def symptoms_outcome)
      show ?thesis
      proof (cases "checkForEmergency (original m) (preferredLanguage s)")
        case (Inl e)
        with w free True show ?thesis by simp
      next
        case (Inr r)
        with w free True show ?thesis
          by (cases r) (simp_all split: sum.splits prod.splits bool.splits)
      qed
    next
      case False
      with free notInitial other_stage_outcome [of m s] show ?thesis by auto
    qed
  qed
qed

lemma emergency_written_last:
  assumes "EMERGENCY_DETECTED \<in> set (stageWrites (fst (manageConversation m s)))"
  shows "conversationState (fst (runConversation m s)) = Some EMERGENCY_DETECTED"
proof -
  from assms have free: "\<not> isButtonReply m" "\<not> isListReply m"
    and fires: "currentState s = COLLECTING_SYMPTOMS \<and>
         (\<exists>k. checkForEmergency (original m) (preferredLanguage s) = Inr (Some k))
       \<or> currentState s = INITIAL \<and> (\<exists>k. checkForEmergency (original m) ''en'' = Inr (Some k))"
    by (simp_all add: emergency_written_iff)
  from fires show ?thesis
  proof (elim disjE conjE exE)
    fix k
    assume "currentState s = COLLECTING_SYMPTOMS"
      and "checkForEmergency (original m) (preferredLanguage s) = Inr (Some k)"
    with free show ?thesis
      by (simp add: runConversation_def manageConversation_def handleSymptomCollection_def)
  next
    fix k
    assume "currentState s = INITIAL" and "checkForEmergency (original m) ''en'' = Inr (Some k)"
    with free show ?thesis
      by (simp add: runConversation_def manageConversation_def handleInitialContact_def)
  qed
qed

lemma emergency_reply_only_when_written:
  assumes "EMERGENCY_DETECTED \<notin> set (stageWrites (fst (manageConversation m s)))"
  shows "snd (manageConversation m s) \<noteq> Emergency d"
proof (cases "isButtonReply m \<or> isListReply m")
  case True
  from reply_outcome [OF True, of s] show ?thesis by blast
next
  case free: False
  show ?thesis
  proof (cases "currentState s = INITIAL")
    case True
    with free assms show ?thesis
      by (auto simp: manageConversation_def handleInitialContact_def generateErrorResponse_def
          writes_simps split: sum.splits option.splits)
  next
    case notInitial: False
    show ?thesis
    proof (cases "currentState s = COLLECTING_SYMPTOMS")
      case True
      with free assms riskAssessment_outcome [of s] show ?thesis
        by (auto simp: manageConversation_def handleSymptomCollection_def writes_simps Let_def
            split: sum.splits option.splits prod.splits)
    next
      case False
      with free notInitial other_stage_outcome [of m s] show ?thesis by auto
    qed
  qed
qed

lemma prefixes_exclusive:
  "replyStartsWith r ''lang_'' \<Longrightarrow> \<not> replyStartsWith r ''provider_''"
proof (cases r)
  case None
  then show ?thesis by (simp add: replyStartsWith_def)
next
  case (Some x)
  assume "replyStartsWith r ''lang_''"
  with Some show ?thesis by (cases x) (auto simp: replyStartsWith_def)
qed

lemma text_monotone:
  assumes "\<not> isButtonReply m" "\<not> isListReply m"
    and "currentState (fst (runConversation m s)) \<noteq> EMERGENCY_DETECTED"
    and "rank (currentState s) = Some a"
  shows "\<exists>b. rank (currentState (fst (runConversation m s))) = Some b \<and> a \<le> b"
  using assms
  by (cases "currentState s")
     (auto simp: runConversation_def manageConversation_def handleInitialContact_def
      handleLanguageSelection_def handleDemographicsCollection_def handleSymptomCollection_def
      handleSeverityAssessment_def handleProviderMatching_def handleAppointmentBooking_def
      handleUnknownState_def performBasicTriage_def performRiskAssessment_def
      mockAssessment_def findMockProviders_def
      updateSessionState_def noUpdates_def currentState_def conversationState_applyUpdates
      Let_def split: sum.splits option.splits if_splits prod.splits)

lemma reply_stage:
  assumes "isButtonReply m \<or> isListReply m"
  shows "currentState (fst (runConversation m s)) =
           (if replyStartsWith (or_else (buttonId m) (listId m)) ''lang_''
            then COLLECTING_DEMOGRAPHICS
            else if replyStartsWith (or_else (buttonId m) (listId m)) ''provider_''
            then APPOINTMENT_BOOKING
            else currentState s)"
  using assms
  by (auto simp: runConversation_def manageConversation_def handleInteractiveReply_def
      handleProviderSelection_def updateSessionState_def noUpdates_def currentState_def
      conversationState_applyUpdates Let_def)

subsection \<open>The captured age has at most two digits\<close>

lemma digitVal_le: "isDigit c \<Longrightarrow> digitVal c \<le> 9"
  unfolding isDigit_def digitVal_def Let_def by linarith

lemma ageAt_le: "ageAt prev rest = Some a \<Longrightarrow> a \<le> 99"
proof -
  assume m: "ageAt prev rest = Some a"
  have two: "10 * digitVal d1 + digitVal d2 \<le> 99" if "isDigit d1" "isDigit d2" for d1 d2
    using digitVal_le [OF that(1)] digitVal_le [OF that(2)] by simp
  have one: "digitVal d1 \<le> 99" if "isDigit d1" for d1
    using digitVal_le [OF that] by simp
  from m show ?thesis
    by (auto simp: ageAt_def two one split: if_splits list.splits)
qed

lemma ageMatch_le: "ageMatch prev t = Some a \<Longrightarrow> a \<le> 99"
proof (induction t arbitrary: prev)
  case Nil
  then show ?case by (simp add: ageAt_le)
next
  case (Cons c cs)
  then show ?case by (auto simp: ageAt_le split: option.splits)
qed

lemma extractDemographics_age_le:
  "extractDemographics (Some t) = Inr d \<Longrightarrow> age d = Some a \<Longrightarrow> 1 \<le> a \<and> a \<le> 99"
  by (auto simp: extractDemographics_def Let_def dest: ageMatch_le split: option.splits if_splits)

subsection \<open>The reduction over the scores\<close>

lemma highest_last_max:
  "\<exists>pre post. a # bs = pre @ highest a bs # post \<and>
     (\<forall>x\<in>set pre. snd x \<le> snd (highest a bs)) \<and>
     (\<forall>x\<in>set post. snd x < snd (highest a bs))"
proof (induction bs arbitrary: a)
  case Nil
  show ?case by (intro exI [of _ "[]"]) simp
next
  case (Cons b bs)
  show ?case
  proof (cases "snd a > snd b")
    case True
    then have r: "highest a (b # bs) = highest a bs" by simp
    from Cons.IH [of a] obtain pre post where
      split: "a # bs = pre @ highest a bs # post"
      and le: "\<forall>x\<in>set pre. snd x \<le> snd (highest a bs)"
      and lt: "\<forall>x\<in>set post. snd x < snd (highest a bs)"
      by blast
    show ?thesis
    proof (cases pre)
      case Nil
      from split [unfolded Nil append_Nil] have eqs: "a # bs = highest a bs # post" .
      have "highest a bs = a" using eqs by (metis list.inject)
      moreover have "post = bs" using eqs by (metis list.inject)
      ultimately have "a # b # bs = [] @ highest a bs # (b # bs) \<and>
          (\<forall>x\<in>set []. snd x \<le> snd (highest a bs)) \<and>
          (\<forall>x\<in>set (b # bs). snd x < snd (highest a bs))"
        using True lt by simp
      then show ?thesis unfolding r by blast
    next
      case (Cons c pre')
      from split [unfolded Cons append_Cons]
      have eqs: "a # bs = c # pre' @ highest a bs # post" .
      have c: "c = a" using eqs by (metis list.inject)
      have bs: "bs = pre' @ highest a bs # post" using eqs by (metis list.inject)
      from le Cons c have "snd a \<le> snd (highest a bs)" by simp
      with True have "snd b \<le> snd (highest a bs)" by simp
      with le Cons c bs lt have "a # b # bs = (a # b # pre') @ highest a bs # post \<and>
          (\<forall>x\<in>set (a # b # pre'). snd x \<le> snd (highest a bs)) \<and>
          (\<forall>x\<in>set post. snd x < snd (highest a bs))"
        by simp
      then show ?thesis unfolding r by blast
    qed
  next
    case False
    then have r: "highest a (b # bs) = highest b bs" by simp
    from Cons.IH [of b] obtain pre post where
      split: "b # bs = pre @ highest b bs # post"
      and le: "\<forall>x\<in>set pre. snd x \<le> snd (highest b bs)"
      and lt: "\<forall>x\<in>set post. snd x < snd (highest b bs)"
      by blast
    have "snd b \<le> snd (highest b bs)"
    proof (cases pre)
      case Nil
      from split [unfolded Nil append_Nil] have "highest b bs = b" by (metis list.inject)
      then show ?thesis by simp
    next
      case (Cons c pre')
      from split [unfolded Cons append_Cons] have "c = b" by (metis list.inject)
      with le Cons show ?thesis by simp
    qed
    with False have "snd a \<le> snd (highest b bs)" by simp
    with split le lt have "a # b # bs = (a # pre) @ highest b bs # post \<and>
          (\<forall>x\<in>set (a # pre). snd x \<le> snd (highest b bs)) \<and>
          (\<forall>x\<in>set post. snd x < snd (highest b bs))"
      by simp
    then show ?thesis unfolding r by blast
  qed
qed

subsection \<open>Validation and the stores\<close>

lemma validate_iff: "fst (validateWebhookPayload payload) = (\<not> rejected payload)"
  by (cases payload)
     (auto simp: validateWebhookPayload_def rejected_def or_else_def truthy_def Let_def
       split: option.splits if_splits)

lemma history_updateSession [simp]:
  "conversation_history (updateSession sid u w) = conversation_history w"
  "outbox (updateSession sid u w) = outbox w"
  by (simp_all add: updateSession_def)

lemma foldl_updateSession:
  "conversation_history (foldl (\<lambda>acc u. updateSession sid u acc) w us) = conversation_history w"
  "outbox (foldl (\<lambda>acc u. updateSession sid u acc) w us) = outbox w"
  by (induction us arbitrary: w) simp_all

lemma getOrCreateSession_keeps:
  "getOrCreateSession newId ph w = (session, w1) \<Longrightarrow>
     conversation_history w1 = conversation_history w \<and> outbox w1 = outbox w"
  by (auto simp: getOrCreateSession_def Let_def split: option.splits)

lemma processUserMessage_outbox:
  assumes "phoneNumber_d md = Some ph" and "\<not> truthy (messageId md)"
  shows "outbox (processUserMessage newId md w) =
           outbox w @ [(ph, snd (manageConversation (toMessage md)
                                   (fst (getOrCreateSession newId ph w))))]"
proof -
  obtain session w1 where g: "getOrCreateSession newId ph w = (session, w1)"
    by (cases "getOrCreateSession newId ph w")
  obtain us r where m: "manageConversation (toMessage md) session = (us, r)"
    by (cases "manageConversation (toMessage md) session")
  from getOrCreateSession_keeps [OF g] have o1: "outbox w1 = outbox w" by simp
  show ?thesis using assms g m o1
    by (simp add: processUserMessage_def addToHistory_def sendResponse_def Let_def
        foldl_updateSession)
qed

lemma processUserMessage_no_marker:
  assumes "\<not> truthy (messageId md)"
  shows "conversation_history (processUserMessage newId md w) = conversation_history w"
proof (cases "phoneNumber_d md")
  case None
  then show ?thesis by (simp add: processUserMessage_def)
next
  case (Some ph)
  obtain session w1 where g: "getOrCreateSession newId ph w = (session, w1)"
    by (cases "getOrCreateSession newId ph w")
  obtain us r where m: "manageConversation (toMessage md) session = (us, r)"
    by (cases "manageConversation (toMessage md) session")
  from getOrCreateSession_keeps [OF g] have "conversation_history w1 = conversation_history w"
    by simp
  then show ?thesis using assms Some g m
    by (simp add: processUserMessage_def addToHistory_def sendResponse_def foldl_updateSession
        Let_def)
qed

subsection \<open>The processed-message query\<close>

lemma isMessageProcessed_fails:
  "isMessageProcessed mid ph w = Inl (UnknownColumn ''s.phone_number'')"
  by (simp add: isMessageProcessed_def sessionsColumns_def)

lemma apology_for_unknown_column:
  "sendErrorMessage ph (UnknownColumn ''s.phone_number'') w
     = w\<lparr>outbox := outbox w @ [(ph, Text ProcessingError)]\<rparr>"
  by (simp add: sendErrorMessage_def errorText_def)

lemma message_with_id_only_apology:
  assumes "fst (validateWebhookPayload (Some p))" "\<not> isStatusMessage p"
    and "truthy (id_w p)"
    and "or_else (senderPhone p) (mobile_w p) = Some ph"
  shows "processWebhook newId (Some p) w
           = (Inr (Success (id_w p)), w\<lparr>outbox := outbox w @ [(ph, Text ProcessingError)]\<rparr>)"
proof -
  have "\<exists>md. parseIncomingMessage p = Some md \<and> messageId md = id_w p \<and>
       phoneNumber_d md = Some ph"
    using assms by (auto simp: parseIncomingMessage_def Let_def)
  then obtain md where md: "parseIncomingMessage p = Some md" "messageId md = id_w p"
      "phoneNumber_d md = Some ph"
    by blast
  from assms(3) obtain mid where mid: "id_w p = Some mid"
    by (cases "id_w p") (simp_all add: truthy_def)
  have "processUserMessage newId md w = w\<lparr>outbox := outbox w @ [(ph, Text ProcessingError)]\<rparr>"
    using md mid assms(3)
    by (simp add: processUserMessage_def isMessageProcessed_fails apology_for_unknown_column)
  then show ?thesis using assms(1,2) md
    by (cases "validateWebhookPayload (Some p)") (simp add: processWebhook_def)
qed

section \<open>The claims\<close>

text \<open>
  C1 (as amended). The claim says that a text containing an emergency keyword of the
  session's language leads to \<open>EMERGENCY_DETECTED\<close> from every stage. The flow checks for
  emergencies in two handlers only. A turn writes the stage \<open>EMERGENCY_DETECTED\<close> exactly
  when the message is not a button or list reply and either the session is in
  \<open>COLLECTING_SYMPTOMS\<close> and the text contains, in any mix of upper and lower case, a
  keyword of the list of the session's language (of the English list when the language
  has no list of its own), or the session is in \<open>INITIAL\<close> and the text contains a
  keyword of the English list. When it is written the session ends the turn in
  \<open>EMERGENCY_DETECTED\<close>. In every other stage, and for every button or list reply, the
  text is not checked: the stage is not written and the reply is not the emergency
  alert. (A language code that names an inherited property of the keyword table has
  neither a list nor the English fallback, so nothing is written for it.)
\<close>

theorem emergency_short_circuit_amended:
  "((EMERGENCY_DETECTED \<in> set (stageWrites (fst (manageConversation m s)))) =
      (\<not> isButtonReply m \<and> \<not> isListReply m \<and>
       (\<exists>t ks k. original m = Some t \<and> k \<in> set ks \<and>
          str_includes (toLowerCase t) (toLowerCase k) \<and>
          (currentState s = COLLECTING_SYMPTOMS \<and>
             (emergencyKeywords (preferredLanguage s) = Keywords ks \<or>
              emergencyKeywords (preferredLanguage s) = Missing \<and>
              emergencyKeywords ''en'' = Keywords ks)
           \<or> currentState s = INITIAL \<and> emergencyKeywords ''en'' = Keywords ks))))
   \<and> (EMERGENCY_DETECTED \<in> set (stageWrites (fst (manageConversation m s))) \<longrightarrow>
        conversationState (fst (runConversation m s)) = Some EMERGENCY_DETECTED)
   \<and> (EMERGENCY_DETECTED \<notin> set (stageWrites (fst (manageConversation m s))) \<longrightarrow>
        (\<forall>d. snd (manageConversation m s) \<noteq> Emergency d))"
proof -
  have en: "emergencyKeywords ''en'' \<noteq> Missing" by (simp add: emergencyKeywords_def)
  have initial: "(\<exists>k. checkForEmergency (original m) ''en'' = Inr (Some k)) =
      (\<exists>t ks k. original m = Some t \<and> k \<in> set ks \<and>
          str_includes (toLowerCase t) (toLowerCase k) \<and> emergencyKeywords ''en'' = Keywords ks)"
    unfolding checkForEmergency_fires_iff using en by blast
  have "(EMERGENCY_DETECTED \<in> set (stageWrites (fst (manageConversation m s)))) =
      (\<not> isButtonReply m \<and> \<not> isListReply m \<and>
       (\<exists>t ks k. original m = Some t \<and> k \<in> set ks \<and>
          str_includes (toLowerCase t) (toLowerCase k) \<and>
          (currentState s = COLLECTING_SYMPTOMS \<and>
             (emergencyKeywords (preferredLanguage s) = Keywords ks \<or>
              emergencyKeywords (preferredLanguage s) = Missing \<and>
              emergencyKeywords ''en'' = Keywords ks)
           \<or> currentState s = INITIAL \<and> emergencyKeywords ''en'' = Keywords ks)))"
    unfolding emergency_written_iff initial checkForEmergency_fires_iff by blast
  then show ?thesis
    using emergency_written_last [of m s] emergency_reply_only_when_written [of m s] by blast
qed


theorem emergency_short_circuit_witness:
  "conversationState
     (fst (runConversation (textMessage shoutedMoNKu)
             ((sessionAt COLLECTING_SYMPTOMS)\<lparr>preferredLanguage := ''yo''\<rparr>)))
     = Some EMERGENCY_DETECTED
   \<and> EMERGENCY_DETECTED \<notin> set (stageWrites (fst (manageConversation
         (textMessage cannotBreathe) (sessionAt COLLECTING_DEMOGRAPHICS))))"
proof -
  let ?m = "textMessage shoutedMoNKu"
  let ?s = "(sessionAt COLLECTING_SYMPTOMS)\<lparr>preferredLanguage := ''yo''\<rparr>"
  let ?m' = "textMessage cannotBreathe" and ?s' = "sessionAt COLLECTING_DEMOGRAPHICS"
  obtain ks where ks: "emergencyKeywords ''yo'' = Keywords ks" "moNKu \<in> set ks"
    by (simp add: emergencyKeywords_def moNKu_def)
  have found: "str_includes (toLowerCase shoutedMoNKu) (toLowerCase moNKu)" by code_simp
  have "original ?m = Some shoutedMoNKu \<and> moNKu \<in> set ks \<and>
        str_includes (toLowerCase shoutedMoNKu) (toLowerCase moNKu) \<and>
        (currentState ?s = COLLECTING_SYMPTOMS \<and>
           (emergencyKeywords (preferredLanguage ?s) = Keywords ks \<or>
            emergencyKeywords (preferredLanguage ?s) = Missing \<and>
            emergencyKeywords ''en'' = Keywords ks)
         \<or> currentState ?s = INITIAL \<and> emergencyKeywords ''en'' = Keywords ks)"
    using ks found by (simp add: textMessage_def currentState_def sessionAt_def)
  then have fires: "\<exists>t ks k. original ?m = Some t \<and> k \<in> set ks \<and>
        str_includes (toLowerCase t) (toLowerCase k) \<and>
        (currentState ?s = COLLECTING_SYMPTOMS \<and>
           (emergencyKeywords (preferredLanguage ?s) = Keywords ks \<or>
            emergencyKeywords (preferredLanguage ?s) = Missing \<and>
            emergencyKeywords ''en'' = Keywords ks)
         \<or> currentState ?s = INITIAL \<and> emergencyKeywords ''en'' = Keywords ks)"
    by blast
  have free: "\<not> isButtonReply ?m \<and> \<not> isListReply ?m" by (simp add: textMessage_def)
  from emergency_short_circuit_amended [of ?m ?s] free fires
  have first: "conversationState (fst (runConversation ?m ?s)) = Some EMERGENCY_DETECTED"
    by blast
  have other: "currentState ?s' \<noteq> COLLECTING_SYMPTOMS" "currentState ?s' \<noteq> INITIAL"
    by (simp_all add: currentState_def sessionAt_def)
  from emergency_short_circuit_amended [of ?m' ?s'] other
  have "EMERGENCY_DETECTED \<notin> set (stageWrites (fst (manageConversation ?m' ?s')))"
    by blast
  with first show ?thesis by blast
qed

text \<open>
  In \<open>COLLECTING_DEMOGRAPHICS\<close> the text "I can't breathe, emergency" of an English
  session contains the keyword "emergency", and the session moves on to
  \<open>COLLECTING_SYMPTOMS\<close>.
\<close>

theorem emergency_not_checked_counterexample:
  "checkForEmergency (original (textMessage cannotBreathe))
       (preferredLanguage (sessionAt COLLECTING_DEMOGRAPHICS))
     = Inr (Some ''emergency'')
   \<and> conversationState
        (fst (runConversation (textMessage cannotBreathe) (sessionAt COLLECTING_DEMOGRAPHICS)))
     = Some COLLECTING_SYMPTOMS"
  by code_simp

text \<open>
  C2 (as amended). The claim counts the symptoms of the whole conversation. The handler
  counts the symptom keywords of the current message only. In \<open>COLLECTING_SYMPTOMS\<close>, for
  a message that is not a button or list reply and raises no emergency: when the message
  yields fewer than 2 symptom keywords no stage is written, the session stays in
  \<open>COLLECTING_SYMPTOMS\<close> and the follow-up question is the reply; when it yields at least
  2, the stage \<open>ASSESSING_SEVERITY\<close> is written, the assessment runs in the same turn and
  the session ends the turn in \<open>PROVIDER_MATCHING\<close>.
\<close>

theorem symptom_threshold_amended:
  assumes "\<not> isButtonReply m" "\<not> isListReply m"
    and "currentState s = COLLECTING_SYMPTOMS"
    and "original m = Some t"
    and "checkForEmergency (Some t) (preferredLanguage s) = Inr None"
    and "extractSymptoms (Some t) = Inr found"
  shows "(length found < 2 \<longrightarrow>
            stageWrites (fst (manageConversation m s)) = [] \<and>
            currentState (fst (runConversation m s)) = COLLECTING_SYMPTOMS \<and>
            snd (runConversation m s) = Text (FollowUpQuestion (preferredLanguage s)))
       \<and> (2 \<le> length found \<longrightarrow>
            stageWrites (fst (manageConversation m s))
              = [ASSESSING_SEVERITY, PROVIDER_MATCHING] \<and>
            currentState (fst (runConversation m s)) = PROVIDER_MATCHING)"
  using assms
  by (simp add: runConversation_def manageConversation_def handleSymptomCollection_def
      performBasicTriage_def performRiskAssessment_def mockAssessment_def
      stageWrites_def List.map_filter_simps updateSessionState_def noUpdates_def
      currentState_def conversationState_applyUpdates Let_def)

theorem symptom_threshold_witness:
  "currentState (fst (runConversation (textMessage ''I have a headache'')
                        (sessionAt COLLECTING_SYMPTOMS))) = COLLECTING_SYMPTOMS
   \<and> currentState (fst (runConversation (textMessage ''I have a headache and a fever'')
                          (sessionAt COLLECTING_SYMPTOMS))) = PROVIDER_MATCHING"
proof -
  let ?s = "sessionAt COLLECTING_SYMPTOMS"
  let ?m1 = "textMessage ''I have a headache''"
  let ?m2 = "textMessage ''I have a headache and a fever''"
  have st: "currentState ?s = COLLECTING_SYMPTOMS"
    by (simp add: currentState_def sessionAt_def)
  have free1: "\<not> isButtonReply ?m1" "\<not> isListReply ?m1"
    and t1: "original ?m1 = Some ''I have a headache''"
    by (simp_all add: textMessage_def)
  have free2: "\<not> isButtonReply ?m2" "\<not> isListReply ?m2"
    and t2: "original ?m2 = Some ''I have a headache and a fever''"
    by (simp_all add: textMessage_def)
  have e1: "checkForEmergency (Some ''I have a headache'') (preferredLanguage ?s) = Inr None"
    by code_simp
  have e2: "checkForEmergency (Some ''I have a headache and a fever'') (preferredLanguage ?s)
              = Inr None"
    by code_simp
  have x1: "extractSymptoms (Some ''I have a headache'')
              = Inr [Symptom ''headache'' ''mild'' ''unknown'']"
    by code_simp
  have x2: "extractSymptoms (Some ''I have a headache and a fever'')
              = Inr [Symptom ''fever'' ''mild'' ''unknown'', Symptom ''headache'' ''mild'' ''unknown'']"
    by code_simp
  from symptom_threshold_amended [OF free1 st t1 e1 x1]
  have "currentState (fst (runConversation ?m1 ?s)) = COLLECTING_SYMPTOMS" by simp
  moreover from symptom_threshold_amended [OF free2 st t2 e2 x2]
  have "currentState (fst (runConversation ?m2 ?s)) = PROVIDER_MATCHING" by simp
  ultimately show ?thesis by simp
qed

text \<open>
  Scenario C of the specification: "I have a headache" and then "and a fever" each yield
  one symptom, two in all, and the session is still in \<open>COLLECTING_SYMPTOMS\<close> after the
  second message.
\<close>

theorem symptoms_not_cumulative_counterexample:
  "extractSymptoms (Some ''I have a headache'') = Inr [Symptom ''headache'' ''mild'' ''unknown'']
   \<and> extractSymptoms (Some ''and a fever'') = Inr [Symptom ''fever'' ''mild'' ''unknown'']
   \<and> conversationState
        (fst (runConversation (textMessage ''and a fever'')
           (fst (runConversation (textMessage ''I have a headache'')
              (sessionAt COLLECTING_SYMPTOMS)))))
      = Some COLLECTING_SYMPTOMS"
  by code_simp

text \<open>
  C3 (as amended). The claim holds for every message, button and list replies
  included, with two exceptions, both replies that arrive out of turn. For every session
  whose stage is in the fixed ordering and every message after which the stage is not
  \<open>EMERGENCY_DETECTED\<close>, the stage after the turn is never earlier than the stage before
  it, unless the message is a button or list reply whose id starts with \<open>lang_\<close>
  received in a stage later than \<open>COLLECTING_DEMOGRAPHICS\<close>, or one whose id starts with
  \<open>provider_\<close> received in \<open>COMPLETED\<close>. A reply \<open>lang_*\<close> always puts the session in
  \<open>COLLECTING_DEMOGRAPHICS\<close> and a reply \<open>provider_*\<close> always puts it in
  \<open>APPOINTMENT_BOOKING\<close>, whatever the stage was.
\<close>

theorem stage_monotone_amended:
  assumes calm: "currentState (fst (runConversation m s)) \<noteq> EMERGENCY_DETECTED"
    and before: "rank (currentState s) = Some a"
  shows "(\<not> ((isButtonReply m \<or> isListReply m) \<and>
             (replyStartsWith (or_else (buttonId m) (listId m)) ''lang_'' \<and> 2 < a \<or>
              replyStartsWith (or_else (buttonId m) (listId m)) ''provider_'' \<and> 6 < a))
          \<longrightarrow> (\<exists>b. rank (currentState (fst (runConversation m s))) = Some b \<and> a \<le> b))
       \<and> ((isButtonReply m \<or> isListReply m) \<and>
           replyStartsWith (or_else (buttonId m) (listId m)) ''lang_''
          \<longrightarrow> currentState (fst (runConversation m s)) = COLLECTING_DEMOGRAPHICS)
       \<and> ((isButtonReply m \<or> isListReply m) \<and>
           replyStartsWith (or_else (buttonId m) (listId m)) ''provider_''
          \<longrightarrow> currentState (fst (runConversation m s)) = APPOINTMENT_BOOKING)"
proof (cases "isButtonReply m \<or> isListReply m")
  case False
  with text_monotone [OF _ _ calm before] show ?thesis by simp
next
  case True
  let ?rid = "or_else (buttonId m) (listId m)"
  note st = reply_stage [OF True, of s]
  show ?thesis
  proof (cases "replyStartsWith ?rid ''lang_''")
    case lang: True
    with st have after: "currentState (fst (runConversation m s)) = COLLECTING_DEMOGRAPHICS"
      by simp
    from lang have np: "\<not> replyStartsWith ?rid ''provider_''" by (rule prefixes_exclusive)
    show ?thesis using True lang np after by auto
  next
    case nolang: False
    show ?thesis
    proof (cases "replyStartsWith ?rid ''provider_''")
      case prov: True
      with st nolang
      have after: "currentState (fst (runConversation m s)) = APPOINTMENT_BOOKING" by simp
      show ?thesis using True nolang prov after by auto
    next
      case False
      with st nolang have "currentState (fst (runConversation m s)) = currentState s" by simp
      with before True nolang False show ?thesis by simp
    qed
  qed
qed


theorem stage_monotone_witness:
  "(\<exists>b. rank (currentState (fst (runConversation (buttonReply ''Yoruba'' ''lang_yo'')
                                  (sessionAt LANGUAGE_SELECTION)))) = Some b \<and> 1 \<le> b)
   \<and> currentState (fst (runConversation (buttonReply ''Yoruba'' ''lang_yo'')
                           (sessionAt LANGUAGE_SELECTION))) = COLLECTING_DEMOGRAPHICS
   \<and> currentState (fst (runConversation (buttonReply ''Dr. Fatima Ali'' ''provider_2'')
                           (sessionAt PROVIDER_MATCHING))) = APPOINTMENT_BOOKING"
proof -
  let ?m = "buttonReply ''Yoruba'' ''lang_yo''" and ?s = "sessionAt LANGUAGE_SELECTION"
  let ?m' = "buttonReply ''Dr. Fatima Ali'' ''provider_2''" and ?s' = "sessionAt PROVIDER_MATCHING"
  have calm: "currentState (fst (runConversation ?m ?s)) \<noteq> EMERGENCY_DETECTED" by code_simp
  have before: "rank (currentState ?s) = Some 1" by (simp add: currentState_def sessionAt_def)
  have reply: "isButtonReply ?m \<or> isListReply ?m" by (simp add: buttonReply_def)
  have lang: "replyStartsWith (or_else (buttonId ?m) (listId ?m)) ''lang_''" by code_simp
  have inTurn: "\<not> ((isButtonReply ?m \<or> isListReply ?m) \<and>
             (replyStartsWith (or_else (buttonId ?m) (listId ?m)) ''lang_'' \<and> 2 < (1::nat) \<or>
              replyStartsWith (or_else (buttonId ?m) (listId ?m)) ''provider_'' \<and> 6 < (1::nat)))"
    by simp
  have calm': "currentState (fst (runConversation ?m' ?s')) \<noteq> EMERGENCY_DETECTED" by code_simp
  have before': "rank (currentState ?s') = Some 5" by (simp add: currentState_def sessionAt_def)
  have reply': "isButtonReply ?m' \<or> isListReply ?m'" by (simp add: buttonReply_def)
  have prov: "replyStartsWith (or_else (buttonId ?m') (listId ?m')) ''provider_''" by code_simp
  from stage_monotone_amended [OF calm before] inTurn reply lang
  have "(\<exists>b. rank (currentState (fst (runConversation ?m ?s))) = Some b \<and> 1 \<le> b)
        \<and> currentState (fst (runConversation ?m ?s)) = COLLECTING_DEMOGRAPHICS"
    by blast
  moreover from stage_monotone_amended [OF calm' before'] reply' prov
  have "currentState (fst (runConversation ?m' ?s')) = APPOINTMENT_BOOKING" by blast
  ultimately show ?thesis by blast
qed

text \<open>
  A session in \<open>APPOINTMENT_BOOKING\<close> (rank 6) that receives the button reply \<open>lang_yo\<close>
  is put back to \<open>COLLECTING_DEMOGRAPHICS\<close> (rank 2).
\<close>

theorem stage_regress_counterexample:
  "rank (currentState (sessionAt APPOINTMENT_BOOKING)) = Some 6
   \<and> rank (currentState (fst (runConversation (buttonReply ''Yoruba'' ''lang_yo'')
        (sessionAt APPOINTMENT_BOOKING)))) = Some 2"
  by code_simp

text \<open>
  C4. A message that carries a message id and is delivered twice shall give exactly one
  stage transition: the first delivery is marked as processed and runs the conversation
  flow, the second is recognised and skipped. In the source the processed-check itself
  fails for every message with an id (\<open>message_with_id_only_apology\<close>): its statement
  names \<open>s.phone_number\<close>, a column the \<open>sessions\<close> table of the session store does not
  have, so the check throws, the flow never runs, no marker is written, and each delivery
  is answered with the apology while the webhook reports success. Delivered twice to an
  empty database, "hello" with the id \<open>wamid.1\<close> leaves no session and no marker, only
  two apologies.
\<close>

theorem duplicate_delivery_never_processed:
  "processWebhook ''sess_1''
       (Some (textPayload (Some ''wamid.1'') ''2348012345678'' ''hello'')) emptyWorld
     = (Inr (Success (Some ''wamid.1'')),
        emptyWorld\<lparr>outbox := [(''2348012345678'', Text ProcessingError)]\<rparr>)
   \<and> processWebhook ''sess_2''
       (Some (textPayload (Some ''wamid.1'') ''2348012345678'' ''hello''))
       (emptyWorld\<lparr>outbox := [(''2348012345678'', Text ProcessingError)]\<rparr>)
     = (Inr (Success (Some ''wamid.1'')),
        emptyWorld\<lparr>outbox := [(''2348012345678'', Text ProcessingError),
                               (''2348012345678'', Text ProcessingError)]\<rparr>)"
  by code_simp

text \<open>
  C5 (as amended). The claim lets the first language of the declared order win a tie.
  The reduction keeps its accumulator only on a strictly greater score, so a later
  language with an equal score replaces an earlier one. \<open>detectLanguage\<close> returns
  \<open>english\<close> when every score is zero; otherwise it returns a language whose score is
  the highest, and among the languages with the highest score the last one in the order
  pidgin, yoruba, igbo, hausa.
\<close>

theorem detectLanguage_last_highest_amended:
  "((\<forall>e\<in>set (languageScores text). snd e = 0) \<longrightarrow> detectLanguage text = ''english'') \<and>
   ((\<exists>e\<in>set (languageScores text). snd e > 0) \<longrightarrow>
      (\<exists>pre r post. languageScores text = pre @ r # post \<and> detectLanguage text = fst r \<and>
         (\<forall>x\<in>set pre. snd x \<le> snd r) \<and> (\<forall>x\<in>set post. snd x < snd r)))"
proof -
  obtain first others where ls: "languageScores text = first # others"
    by (simp add: languageScores_def)
  let ?r = "highest first others"
  from highest_last_max [of first others] obtain pre post where
    split: "first # others = pre @ ?r # post"
    and le: "\<forall>x\<in>set pre. snd x \<le> snd ?r"
    and lt: "\<forall>x\<in>set post. snd x < snd ?r"
    by blast
  have mem: "?r \<in> set (languageScores text)" using ls split
    by (metis in_set_conv_decomp)
  have zero: "(\<forall>e\<in>set (languageScores text). snd e = 0) \<longrightarrow> detectLanguage text = ''english''"
    using mem by (auto simp: detectLanguage_def ls Let_def)
  have pos: "snd ?r > 0" if "\<exists>e\<in>set (languageScores text). snd e > 0"
  proof -
    from that obtain e where e: "e \<in> set (languageScores text)" and epos: "snd e > 0"
      by blast
    from e ls split have "e \<in> set pre \<or> e = ?r \<or> e \<in> set post" by auto
    then show ?thesis
    proof (elim disjE)
      assume "e \<in> set pre"
      with le have "snd e \<le> snd ?r" by blast
      with epos show ?thesis by simp
    next
      assume "e = ?r"
      with epos show ?thesis by simp
    next
      assume "e \<in> set post"
      with lt have "snd e < snd ?r" by blast
      with epos show ?thesis by simp
    qed
  qed
  have "(\<exists>e\<in>set (languageScores text). snd e > 0) \<longrightarrow>
      (\<exists>pre r post. languageScores text = pre @ r # post \<and> detectLanguage text = fst r \<and>
         (\<forall>x\<in>set pre. snd x \<le> snd r) \<and> (\<forall>x\<in>set post. snd x < snd r))"
  proof
    assume "\<exists>e\<in>set (languageScores text). snd e > 0"
    then have "snd ?r > 0" by (rule pos)
    then have "detectLanguage text = fst ?r" by (simp add: detectLanguage_def ls Let_def)
    with split le lt ls show "\<exists>pre r post. languageScores text = pre @ r # post \<and>
        detectLanguage text = fst r \<and>
        (\<forall>x\<in>set pre. snd x \<le> snd r) \<and> (\<forall>x\<in>set post. snd x < snd r)"
      by metis
  qed
  with zero show ?thesis by blast
qed

theorem detectLanguage_last_highest_witness:
  "detectLanguage ''hello'' = ''english''
   \<and> (\<exists>pre r post. languageScores ''wetin dey happen'' = pre @ r # post \<and>
         detectLanguage ''wetin dey happen'' = fst r \<and>
         (\<forall>x\<in>set pre. snd x \<le> snd r) \<and> (\<forall>x\<in>set post. snd x < snd r))"
proof -
  have s1: "languageScores ''hello''
              = [(''pidgin'', 0), (''yoruba'', 0), (''igbo'', 0), (''hausa'', 0)]"
    by code_simp
  have s2: "languageScores ''wetin dey happen''
              = [(''pidgin'', 2), (''yoruba'', 0), (''igbo'', 0), (''hausa'', 0)]"
    by code_simp
  have h1: "\<forall>e\<in>set (languageScores ''hello''). snd e = 0" by (simp add: s1)
  have h2: "\<exists>e\<in>set (languageScores ''wetin dey happen''). snd e > 0" by (simp add: s2)
  from detectLanguage_last_highest_amended [of "''hello''"] h1
  have "detectLanguage ''hello'' = ''english''" by blast
  moreover from detectLanguage_last_highest_amended [of "''wetin dey happen''"] h2
  have "\<exists>pre r post. languageScores ''wetin dey happen'' = pre @ r # post \<and>
         detectLanguage ''wetin dey happen'' = fst r \<and>
         (\<forall>x\<in>set pre. snd x \<le> snd r) \<and> (\<forall>x\<in>set post. snd x < snd r)"
    by blast
  ultimately show ?thesis by blast
qed

text \<open>
  On "wetin bawo" pidgin and yoruba score one hit each; the later of the two, yoruba, is
  returned.
\<close>

theorem detectLanguage_tie_counterexample:
  "languageScores ''wetin bawo''
     = [(''pidgin'', 1), (''yoruba'', 1), (''igbo'', 0), (''hausa'', 0)]
   \<and> detectLanguage ''wetin bawo'' = ''yoruba''"
  by code_simp

text \<open>
  C6. In stage \<open>COLLECTING_DEMOGRAPHICS\<close> an integer in [1,120] present in the text is
  recorded as the age, so that the ages 100 to 120 are extractable. The source keeps
  the bound \<open>age <= 120\<close>, but its pattern \<open>\d{1,2}\<close> only ever captures one or two
  digits (\<open>extractDemographics_age_le\<close>): on the text "I am 105 years old" no age is
  recorded at all.
\<close>

theorem extractDemographics_age_105_lost:
  "extractDemographics (Some ''I am 105 years old'') = Inr \<lparr>age = None, gender = None\<rparr>"
  by code_simp




text \<open>
  C8. The webhook fails with \<open>InvalidPayload\<close> exactly when the payload has no message
  type, no phone number, or a phone number that fails the format check, and then the
  stores are left as they are.
\<close>

theorem invalid_payload_exactly:
  "((\<exists>errs. fst (processWebhook newId payload w) = Inl (InvalidPayload errs)) = rejected payload)
   \<and> (rejected payload \<longrightarrow> snd (processWebhook newId payload w) = w)"
proof (cases "rejected payload")
  case True
  then have "\<not> fst (validateWebhookPayload payload)" by (simp add: validate_iff)
  then have "processWebhook newId payload w
      = (Inl (InvalidPayload (snd (validateWebhookPayload payload))), w)"
    by (cases "validateWebhookPayload payload") (simp add: processWebhook_def)
  with True show ?thesis by simp
next
  case False
  then have valid: "fst (validateWebhookPayload payload)" by (simp add: validate_iff)
  from False obtain p where p: "payload = Some p"
    by (cases payload) (simp_all add: rejected_def)
  have "\<exists>r w'. processWebhook newId payload w = (Inr r, w')"
    using valid p
    by (auto simp: processWebhook_def parseIncomingMessage_def Let_def split: prod.splits)
  with False show ?thesis by auto
qed

theorem invalid_payload_witness:
  "rejected (Some (textPayload (Some ''wamid.2'') ''08012345678'' ''hello''))
   \<and> snd (processWebhook ''sess_1''
            (Some (textPayload (Some ''wamid.2'') ''08012345678'' ''hello'')) emptyWorld)
     = emptyWorld
   \<and> (\<exists>errs. fst (processWebhook ''sess_1''
                    (Some (textPayload (Some ''wamid.2'') ''08012345678'' ''hello'')) emptyWorld)
              = Inl (InvalidPayload errs))"
proof -
  have bad: "rejected (Some (textPayload (Some ''wamid.2'') ''08012345678'' ''hello''))"
    by code_simp
  from invalid_payload_exactly
         [of "''sess_1''" "Some (textPayload (Some ''wamid.2'') ''08012345678'' ''hello'')"
             emptyWorld] bad
  show ?thesis by blast
qed

text \<open>
  C9 (as amended). The claim covers every further message; a button or list reply whose
  id starts with \<open>lang_\<close> or \<open>provider_\<close> still rewrites the stage. Once a session is in
  \<open>EMERGENCY_DETECTED\<close> or \<open>COMPLETED\<close>, every message other than such a reply is
  answered with a text and leaves the session row, and so its stage, unchanged.
\<close>

theorem terminal_stage_amended:
  assumes "currentState s = EMERGENCY_DETECTED \<or> currentState s = COMPLETED"
    and "\<not> ((isButtonReply m \<or> isListReply m) \<and>
            (replyStartsWith (or_else (buttonId m) (listId m)) ''lang_'' \<or>
             replyStartsWith (or_else (buttonId m) (listId m)) ''provider_''))"
  shows "fst (runConversation m s) = s \<and> (\<exists>t. snd (runConversation m s) = Text t)"
  using assms
  by (auto simp: runConversation_def manageConversation_def handleInteractiveReply_def
      handleUnknownState_def Let_def)

theorem terminal_stage_witness:
  "fst (runConversation (textMessage ''thank you'') (sessionAt COMPLETED)) = sessionAt COMPLETED
   \<and> (\<exists>t. snd (runConversation (textMessage ''thank you'') (sessionAt COMPLETED)) = Text t)"
proof -
  let ?m = "textMessage ''thank you''" and ?s = "sessionAt COMPLETED"
  have terminal: "currentState ?s = EMERGENCY_DETECTED \<or> currentState ?s = COMPLETED"
    by (simp add: currentState_def sessionAt_def)
  have plain: "\<not> ((isButtonReply ?m \<or> isListReply ?m) \<and>
            (replyStartsWith (or_else (buttonId ?m) (listId ?m)) ''lang_'' \<or>
             replyStartsWith (or_else (buttonId ?m) (listId ?m)) ''provider_''))"
    by (simp add: textMessage_def)
  show ?thesis by (rule terminal_stage_amended [OF terminal plain])
qed

text \<open>
  A session in \<open>COMPLETED\<close> that receives the button reply \<open>lang_yo\<close> is put back to
  \<open>COLLECTING_DEMOGRAPHICS\<close>.
\<close>

theorem terminal_stage_counterexample:
  "conversationState (sessionAt COMPLETED) = Some COMPLETED
   \<and> conversationState (fst (runConversation (buttonReply ''Yoruba'' ''lang_yo'')
        (sessionAt COMPLETED))) = Some COLLECTING_DEMOGRAPHICS"
  by code_simp

text \<open>
  C10. For a valid content payload without a message id neither the processed-check nor
  the marking runs: no marker is written, the conversation flow runs on the stored
  session and its reply goes to the channel on every delivery, so that two deliveries of
  the same payload produce two replies.
\<close>

theorem no_message_id_no_dedup:
  assumes valid: "fst (validateWebhookPayload (Some p))" "\<not> isStatusMessage p"
    and ident: "\<not> truthy (id_w p)"
    and key: "or_else (senderPhone p) (mobile_w p) = Some ph"
  shows "conversation_history (snd (processWebhook newId (Some p) w)) = conversation_history w
       \<and> (\<exists>md. parseIncomingMessage p = Some md \<and>
            outbox (snd (processWebhook newId (Some p) w)) =
              outbox w @ [(ph, snd (manageConversation (toMessage md)
                                      (fst (getOrCreateSession newId ph w))))])
       \<and> length (outbox (snd (processWebhook newId' (Some p)
                                (snd (processWebhook newId (Some p) w)))))
           = length (outbox w) + 2"
proof -
  have acc: "\<exists>md. parseIncomingMessage p = Some md \<and> \<not> truthy (messageId md) \<and>
       phoneNumber_d md = Some ph \<and>
       (\<forall>n v. processWebhook n (Some p) v = (Inr (Success (id_w p)), processUserMessage n md v))"
    using valid ident key
    by (auto simp: processWebhook_def parseIncomingMessage_def Let_def split: prod.splits)
  then obtain md where md: "parseIncomingMessage p = Some md" "\<not> truthy (messageId md)"
      "phoneNumber_d md = Some ph"
      and pw: "\<And>n v. processWebhook n (Some p) v
                 = (Inr (Success (id_w p)), processUserMessage n md v)"
    by blast
  have out: "\<And>n v. outbox (processUserMessage n md v) =
       outbox v @ [(ph, snd (manageConversation (toMessage md)
                               (fst (getOrCreateSession n ph v))))]"
    using md by (simp add: processUserMessage_outbox)
  have hist: "conversation_history (processUserMessage newId md w) = conversation_history w"
    using md by (simp add: processUserMessage_no_marker)
  show ?thesis using md(1) hist by (simp add: pw out)
qed

theorem no_message_id_witness:
  "conversation_history
     (snd (processWebhook ''sess_1'' (Some (textPayload None ''2348012345678'' ''hello''))
             emptyWorld)) = []
   \<and> length (outbox
        (snd (processWebhook ''sess_2'' (Some (textPayload None ''2348012345678'' ''hello''))
           (snd (processWebhook ''sess_1'' (Some (textPayload None ''2348012345678'' ''hello''))
                   emptyWorld))))) = 2"
proof -
  let ?p = "textPayload None ''2348012345678'' ''hello''"
  have valid: "fst (validateWebhookPayload (Some ?p))" "\<not> isStatusMessage ?p" by code_simp+
  have ident: "\<not> truthy (id_w ?p)" by (simp add: textPayload_def truthy_def)
  have key: "or_else (senderPhone ?p) (mobile_w ?p) = Some ''2348012345678''" by code_simp
  have empty: "conversation_history emptyWorld = []" "length (outbox emptyWorld) = 0"
    by (simp_all add: emptyWorld_def)
  from no_message_id_no_dedup [OF valid ident key, where w = emptyWorld and newId = "''sess_1''" and newId' = "''sess_2''"]
    empty
  show ?thesis by simp
qed

end
